theory Spec2Isabelle
  imports Complex_Main "HOL-Library.AList"
begin

text \<open>
  A model of the availability handling of the dashboard's front end: the public
  availability page (fetching the snapshot, the availability filter, the statistics and
  the pagination), the shared HTTP client with its request interceptor, and the handlers
  of the servers page that check a plan's availability, queue purchase intents and add
  subscriptions in a batch. Handlers are functions on an explicit page state; what the
  network answers is a parameter of each handler.
\<close>

section \<open>JavaScript strings and arrays\<close>

text \<open>
  Strings are \<^typ>\<open>string\<close>. Plan codes, facility codes, option codes and status
  strings are ASCII in this program, so \<open>toLowerCase\<close> is the ASCII case map: the 26
  capital letters go to their small forms and every other character stays.
\<close>

definition toLowerCase_char :: "char \<Rightarrow> char" where
  "toLowerCase_char c =
     (case map_of (zip ''ABCDEFGHIJKLMNOPQRSTUVWXYZ'' ''abcdefghijklmnopqrstuvwxyz'') c of
        Some l \<Rightarrow> l
      | None \<Rightarrow> c)"

definition toLowerCase :: "string \<Rightarrow> string" where
  "toLowerCase s = map toLowerCase_char s"

text \<open>\<open>s.includes(t)\<close>: \<open>t\<close> occurs in \<open>s\<close> as a contiguous substring.\<close>

fun starts_with :: "string \<Rightarrow> string \<Rightarrow> bool" where
  "starts_with s [] = True"
| "starts_with [] (d # t) = False"
| "starts_with (c # s) (d # t) = (c = d \<and> starts_with s t)"

fun js_includes :: "string \<Rightarrow> string \<Rightarrow> bool" where
  "js_includes [] t = (t = [])"
| "js_includes (c # s) t = (starts_with (c # s) t \<or> js_includes s t)"

text \<open>\<open>xs.join(sep)\<close> on an array of strings.\<close>

fun join :: "string list \<Rightarrow> string \<Rightarrow> string" where
  "join [] sep = []"
| "join [x] sep = x"
| "join (x # y # ys) sep = x @ sep @ join (y # ys) sep"

text \<open>
  \<open>xs.slice(start, end)\<close> as ECMAScript defines it: a negative index counts from the
  end of the array, both indices are clamped to \<open>0 .. length\<close>, and the result is empty
  when the clamped end does not exceed the clamped start.
\<close>

definition slice :: "'a list \<Rightarrow> int \<Rightarrow> int \<Rightarrow> 'a list" where
  "slice xs start fin =
     (let len = int (length xs);
          k = (if start < 0 then max (len + start) 0 else min start len);
          final = (if fin < 0 then max (len + fin) 0 else min fin len)
      in take (nat (final - k)) (drop (nat k) xs))"

section \<open>Toasts, errors and requests\<close>

text \<open>
  A thrown value as the handlers and the shared client inspect it: \<open>error.code\<close>,
  \<open>error.message\<close>, \<open>error.response\<close> (with its \<open>status\<close> and the \<open>message\<close> field of
  its \<open>data\<close>) and whether \<open>error.request\<close> is set; each may be absent.
\<close>

record error_response =
  resp_status :: nat
  data_message :: "string option"

record js_error =
  err_code :: "string option"
  err_message :: "string option"
  err_response :: "error_response option"
  err_request :: bool

text \<open>JavaScript truthiness of a possibly absent string: present and not empty.\<close>

fun truthy :: "string option \<Rightarrow> bool" where
  "truthy None = False"
| "truthy (Some s) = (s \<noteq> [])"

text \<open>\<open>a || b\<close> on strings: \<open>a\<close> when it is truthy, else \<open>b\<close>.\<close>

definition or_default :: "string option \<Rightarrow> string \<Rightarrow> string" where
  "or_default a b = (if truthy a then the a else b)"

text \<open>
  The handlers' condition \<open>error.code === 'ECONNABORTED' || error.message?.includes('timeout')\<close>.
\<close>

definition is_timeout :: "js_error \<Rightarrow> bool" where
  "is_timeout error =
     (err_code error = Some ''ECONNABORTED'' \<or>
      (case err_message error of None \<Rightarrow> False | Some m \<Rightarrow> js_includes m ''timeout''))"

text \<open>
  The source's toast texts are Chinese template literals; each template is a constructor
  here, carrying the values the template interpolates. The batch summary is built by
  appending lines to one string, so it carries the list of its lines in order.
\<close>

datatype batch_line =
    BatchDoneLine
  | BatchAddedLine int
  | BatchSkippedLine int
  | BatchFailedLine nat
  | BatchFooterLine

text \<open>
  The four category names under which \<open>addToQueue\<close> files the labels of the selected
  options (the source's strings for "other", "memory", "storage" and "network").
\<close>

datatype category = OtherCategory | MemoryCategory | StorageCategory | NetworkCategory

datatype toast_text =
    FetchingData
  | FetchedRecords nat
  | FetchFailed
  | FetchTimeout
  | FetchFailedWith string
  | ConfigureApiFirst
  | CheckingAvailability string
  | AvailabilityUpdated string
  | AvailabilityFailed string
  | AvailabilityTimeout string
  | PlanNotFound string
  | AvailabilityFailedWith string string
  | SelectOneDatacenter
  | AddedToQueue string nat "(category \<times> string list) list option"
  | AddToQueueFailed
  | BatchSummary "batch_line list"
  | ServerListEmpty
  | BatchFailed
  | ServerMessage string
  | AccessDenied
  | ServerError
  | NetworkFailed

datatype toast = ToastInfo toast_text | ToastSuccess toast_text | ToastError toast_text

section \<open>The availability page (OVHAvailabilityPage.tsx)\<close>

record DatacenterInfo =
  datacenter :: string
  availability :: string

text \<open>
  The fields \<open>memory\<close>, \<open>planCode\<close>, \<open>server\<close> and \<open>storage\<close> of an item carry the
  prefix \<open>item_\<close>: the servers page has a plan record with fields of these names and
  handlers with a parameter \<open>server\<close>.
\<close>

record AvailabilityItem =
  fqn :: string
  item_memory :: string
  item_planCode :: string
  item_server :: string
  item_storage :: string
  systemStorage :: "string option"
  datacenters :: "DatacenterInfo list"

subsection \<open>fetchAvailabilities\<close>

text \<open>
  The page state that \<open>fetchAvailabilities\<close> reads and writes, with the toasts shown and
  the URLs requested so far. The request goes through plain \<open>axios.get\<close> with a timeout
  of 30000 ms, not through the shared client.

  The state variable \<open>availabilities\<close> is declared as an array of items, but
  \<open>setAvailabilities(response.data)\<close> stores whatever the reply holds, unchecked: the field
  is \<open>Some\<close> of a list, or \<^const>\<open>None\<close> for \<open>null\<close>.
\<close>

record page_state =
  availabilities :: "AvailabilityItem list option"
  isLoading :: bool
  apiBaseUrl :: string
  toasts :: "toast list"
  requested :: "string list"

text \<open>The error text chosen in the \<open>catch\<close> block.\<close>

definition fetch_errorMessage :: "js_error \<Rightarrow> toast_text" where
  "fetch_errorMessage error =
     (if is_timeout error then FetchTimeout
      else if truthy (err_message error) then FetchFailedWith (the (err_message error))
      else FetchFailed)"

text \<open>
  The \<open>TypeError\<close> that reading \<open>response.data.length\<close> throws when \<open>response.data\<close> is
  \<open>null\<close>. It has no \<open>code\<close>, no \<open>response\<close> and no \<open>request\<close>; its message is the engine's
  (here V8's, with the apostrophes as character 0x27), never empty and without the word
  \<open>timeout\<close>.
\<close>

definition length_of_null :: js_error where
  "length_of_null =
     \<lparr> err_code = None,
       err_message = Some (''Cannot read properties of null (reading '' @ [CHR 0x27] @ ''length''
                            @ [CHR 0x27] @ '')''),
       err_response = None, err_request = False \<rparr>"

text \<open>
  \<open>fetchAvailabilities_steps\<close> lists the page state after each effect of one call, in
  program order. The parameter is what \<open>await axios.get\<close> does: it throws (\<open>Inl\<close>), or it
  returns a response (\<open>Inr\<close>) whose \<open>data\<close> is an array of items (\<open>Some\<close>) or \<open>null\<close>
  (\<^const>\<open>None\<close>). An empty \<open>apiBaseUrl\<close> returns at once with no effect.

  The \<open>catch\<close> block has two ways in. The first is a rejected request. The second is
  inside the \<open>try\<close> after \<open>setAvailabilities(response.data)\<close>: the next statement builds the
  success text from \<open>response.data.length\<close>, which throws when the data is \<open>null\<close>, with the
  state already assigned.
\<close>

definition fetchAvailabilities_steps ::
    "page_state \<Rightarrow> js_error + AvailabilityItem list option \<Rightarrow> page_state list" where
  "fetchAvailabilities_steps st response =
     (if apiBaseUrl st = [] then []
      else
        let s1 = st\<lparr>isLoading := True\<rparr>;
            apiUrl = apiBaseUrl st @ ''/v1/dedicated/server/datacenter/availabilities'';
            s2 = s1\<lparr>toasts := toasts s1 @ [ToastInfo FetchingData]\<rparr>;
            s3 = s2\<lparr>requested := requested s2 @ [apiUrl]\<rparr>
        in case response of
             Inr data \<Rightarrow>
               let s4 = s3\<lparr>availabilities := data\<rparr>
               in (case data of
                     Some items \<Rightarrow>
                       let s5 = s4\<lparr>toasts := toasts s4 @ [ToastSuccess (FetchedRecords (length items))]\<rparr>;
                           s6 = s5\<lparr>isLoading := False\<rparr>
                       in [s1, s2, s3, s4, s5, s6]
                   | None \<Rightarrow>
                       let s5 = s4\<lparr>toasts := toasts s4 @ [ToastError (fetch_errorMessage length_of_null)]\<rparr>;
                           s6 = s5\<lparr>isLoading := False\<rparr>
                       in [s1, s2, s3, s4, s5, s6])
           | Inl error \<Rightarrow>
               let s4 = s3\<lparr>toasts := toasts s3 @ [ToastError (fetch_errorMessage error)]\<rparr>;
                   s5 = s4\<lparr>isLoading := False\<rparr>
               in [s1, s2, s3, s4, s5])"

definition fetchAvailabilities ::
    "page_state \<Rightarrow> js_error + AvailabilityItem list option \<Rightarrow> page_state" where
  "fetchAvailabilities st response = last (st # fetchAvailabilities_steps st response)"

subsection \<open>The availability filter of filteredData, and stats\<close>

text \<open>The two predicates on a datacenter entry that the page uses inline.\<close>

definition dc_in_stock :: "DatacenterInfo \<Rightarrow> bool" where
  "dc_in_stock dc = (availability dc \<noteq> ''unavailable'' \<and> availability dc \<noteq> ''unknown'')"

definition dc_out_of_stock :: "DatacenterInfo \<Rightarrow> bool" where
  "dc_out_of_stock dc = (availability dc = ''unavailable'' \<or> availability dc = ''unknown'')"

definition dc_one_hour :: "DatacenterInfo \<Rightarrow> bool" where
  "dc_one_hour dc = (availability dc = ''1H-low'' \<or> availability dc = ''1H-high'')"

text \<open>
  The availability step of \<open>filteredData\<close> (lines 175 to 192): \<open>some\<close> is \<^const>\<open>list_ex\<close>,
  \<open>every\<close> is \<^const>\<open>list_all\<close>.
\<close>

definition availabilityFilter :: "string \<Rightarrow> AvailabilityItem list \<Rightarrow> AvailabilityItem list" where
  "availabilityFilter filterAvailability filtered =
     (if filterAvailability \<noteq> ''all'' then
        filter (\<lambda>item.
          if filterAvailability = ''available'' then list_ex dc_in_stock (datacenters item)
          else if filterAvailability = ''unavailable'' then list_all dc_out_of_stock (datacenters item)
          else if filterAvailability = ''1h'' then list_ex dc_one_hour (datacenters item)
          else True) filtered
      else filtered)"

record stats_t =
  total :: nat
  available :: nat
  oneHour :: nat

definition stats :: "AvailabilityItem list \<Rightarrow> stats_t" where
  "stats filteredData =
     \<lparr> total = length filteredData,
       available = length (filter (\<lambda>item. list_ex dc_in_stock (datacenters item)) filteredData),
       oneHour = length (filter (\<lambda>item. list_ex dc_one_hour (datacenters item)) filteredData) \<rparr>"

subsection \<open>Pagination\<close>

definition itemsPerPage_of :: "bool \<Rightarrow> int" where
  "itemsPerPage_of isMobile = (if isMobile then 20 else 50)"

definition paginatedData :: "'a list \<Rightarrow> int \<Rightarrow> int \<Rightarrow> 'a list" where
  "paginatedData filteredData currentPage itemsPerPage =
     (let startIndex = (currentPage - 1) * itemsPerPage;
          endIndex = startIndex + itemsPerPage
      in slice filteredData startIndex endIndex)"

text \<open>
  \<open>Math.ceil(filteredData.length / itemsPerPage)\<close>. The quotient of an array length by a
  positive page size is far from the range where a double rounds it to a wrong integer,
  so the real quotient stands for it.
\<close>

definition totalPages :: "'a list \<Rightarrow> int \<Rightarrow> int" where
  "totalPages filteredData itemsPerPage =
     \<lceil>real (length filteredData) / real_of_int itemsPerPage\<rceil>"

section \<open>The shared API client (apiClient.ts)\<close>

text \<open>
  \<open>localStorage\<close> is a map from keys to strings; \<open>getItem\<close> of a key that is not stored
  is \<open>null\<close>, here \<^const>\<open>None\<close>.
\<close>

type_synonym localStorage = "string \<rightharpoonup> string"

definition API_SECRET_KEY_STORAGE :: string where
  "API_SECRET_KEY_STORAGE = ''api_secret_key''"

definition getApiSecretKey :: "localStorage \<Rightarrow> string" where
  "getApiSecretKey ls = or_default (ls API_SECRET_KEY_STORAGE) []"

definition setApiSecretKey :: "localStorage \<Rightarrow> string \<Rightarrow> localStorage" where
  "setApiSecretKey ls key = ls(API_SECRET_KEY_STORAGE \<mapsto> key)"

definition clearApiSecretKey :: "localStorage \<Rightarrow> localStorage" where
  "clearApiSecretKey ls = ls(API_SECRET_KEY_STORAGE := None)"

text \<open>\<open>n.toString()\<close> of a non-negative integer: its decimal digits.\<close>

fun toString :: "nat \<Rightarrow> string" where
  "toString n =
     (if n < 10 then [''0123456789'' ! n]
      else toString (n div 10) @ [''0123456789'' ! (n mod 10)])"

declare toString.simps [simp del]

text \<open>
  A request configuration as the interceptor sees it: the headers by name, and the rest of
  the configuration, which the interceptor does not touch.
\<close>

record 'a request_config =
  headers :: "string \<rightharpoonup> string"
  rest :: 'a

text \<open>
  The headers of a request sent through the client are the instance's defaults
  (\<open>Content-Type: application/json\<close>) overridden by the headers of the caller's own
  configuration; \<open>merge_config\<close> is that merge, done by axios before the interceptor runs.
\<close>

definition apiClient_headers :: "string \<rightharpoonup> string" where
  "apiClient_headers = [''Content-Type'' \<mapsto> ''application/json'']"

definition merge_config :: "'a request_config \<Rightarrow> 'a request_config" where
  "merge_config config = config\<lparr>headers := apiClient_headers ++ headers config\<rparr>"

text \<open>
  The request interceptor (lines 48 to 60): \<open>now\<close> is the value of \<open>Date.now()\<close>, the
  milliseconds since the epoch.
\<close>

definition request_interceptor ::
    "localStorage \<Rightarrow> nat \<Rightarrow> 'a request_config \<Rightarrow> 'a request_config" where
  "request_interceptor ls now config =
     (let apiKey = getApiSecretKey ls;
          config1 = (if apiKey \<noteq> [] then config\<lparr>headers := (headers config)(''X-API-Key'' \<mapsto> apiKey)\<rparr>
                     else config)
      in config1\<lparr>headers := (headers config1)(''X-Request-Time'' \<mapsto> toString now)\<rparr>)"

definition apiClient_send ::
    "localStorage \<Rightarrow> nat \<Rightarrow> 'a request_config \<Rightarrow> 'a request_config" where
  "apiClient_send ls now config = request_interceptor ls now (merge_config config)"

text \<open>
  The response interceptor's error handler (lines 74 to 124) rejects with the same error
  after showing, for some errors, a toast of its own: for status 403 and 500, and when no
  response arrived although the request was made. The other branches only write to the
  console.
\<close>

definition response_interceptor_toasts :: "js_error \<Rightarrow> toast list" where
  "response_interceptor_toasts error =
     (case err_response error of
        Some response \<Rightarrow>
          (if resp_status response = 403 then [ToastError AccessDenied]
           else if resp_status response = 500 then [ToastError ServerError]
           else [])
      | None \<Rightarrow> (if err_request error then [ToastError NetworkFailed] else []))"

section \<open>The servers page (ServerControlPage.tsx, component ServersPage)\<close>

text \<open>
  The objects the page uses as dictionaries (\<open>Record<string, T>\<close>: \<open>selectedOptions\<close>,
  \<open>availability\<close>, \<open>serverPrices\<close>, \<open>dcMap\<close>) are maps at their declared types; their keys
  are plan codes and facility codes (a key that names a member of \<open>Object.prototype\<close>,
  such as \<open>constructor\<close>, is outside the declared types and outside this model). Where the
  page walks such an object with \<open>Object.entries\<close> it is an association list in insertion
  order, which is the order JavaScript gives to keys that are not array indices.

  Some names of the source are fields of records here, so a few parameters and state
  variables are renamed: the parameter \<open>planCode\<close> of a handler is \<open>plan\<close>, the parameters
  \<open>datacenter\<close> and \<open>datacenters\<close> are \<open>dc\<close> and \<open>dcs\<close>, the state variable \<open>availability\<close> is
  \<open>availability_of\<close>, and the field \<open>value\<close> of an option is \<open>opt_value\<close>. The fields \<open>shown\<close>
  and \<open>sent\<close> of the state collect the toasts shown and the requests made through the
  shared client.
\<close>

record ServerOption =
  label :: string
  opt_value :: string
  family :: "string option"
  isDefault :: "bool option"

record PlanDatacenter =
  plan_datacenter :: string
  dcName :: string
  region :: string
  plan_availability :: string
  countryCode :: string

record ServerPlan =
  planCode :: string
  name :: string
  description :: "string option"
  cpu :: string
  memory :: string
  storage :: string
  bandwidth :: string
  vrackBandwidth :: string
  defaultOptions :: "ServerOption list"
  availableOptions :: "ServerOption list"
  plan_datacenters :: "PlanDatacenter list"

datatype http_verb = GET | POST

text \<open>
  The JSON bodies the page posts: \<open>{planCode, datacenter, options}\<close> to the queue,
  \<open>{datacenter, options}\<close> to the price lookup, \<open>{notifyAvailable, notifyUnavailable}\<close>
  to the batch subscription.
\<close>

datatype request_body =
    NoBody
  | QueueBody string string "string list"
  | PriceBody string "string list"
  | BatchAddAllBody bool bool

record http_request =
  req_verb :: http_verb
  req_url :: string
  req_params :: "(string \<times> string) list"
  req_body :: request_body
  req_timeout :: "nat option"

text \<open>One entry of \<open>serverPrices[planCode][datacenter]\<close>, as far as the page sets it here.\<close>

datatype price_error = NoApiKeyConfigured

record price_entry =
  loading :: bool
  error_of :: "price_error option"

record servers_state =
  isAuthenticated :: bool
  servers :: "ServerPlan list"
  selectedOptions :: "string \<rightharpoonup> string list"
  availability_of :: "string \<rightharpoonup> (string \<times> string) list"
  serverPrices :: "string \<rightharpoonup> (string \<rightharpoonup> price_entry)"
  isCheckingAvailability :: bool
  selectedServer :: "string option"
  showBatchMonitorDialog :: bool
  subscribedServers :: "string list"
  shown :: "toast list"
  sent :: "http_request list"

definition show_toast :: "toast \<Rightarrow> servers_state \<Rightarrow> servers_state" where
  "show_toast t st = st\<lparr>shown := shown st @ [t]\<rparr>"

definition send :: "http_request \<Rightarrow> servers_state \<Rightarrow> servers_state" where
  "send r st = st\<lparr>sent := sent st @ [r]\<rparr>"

subsection \<open>Facility codes\<close>

definition dcMap :: "string \<rightharpoonup> string" where
  "dcMap = [''mum'' \<mapsto> ''ynm'']"

definition convertDisplayDcToApiDc :: "string \<Rightarrow> string" where
  "convertDisplayDcToApiDc displayDc =
     or_default (dcMap (toLowerCase displayDc)) (toLowerCase displayDc)"

text \<open>The key normalisation of \<open>checkAvailability\<close> (line 6464).\<close>

definition normalizedDc :: "string \<Rightarrow> string" where
  "normalizedDc dc = (if dc = ''ynm'' then ''mum'' else dc)"

text \<open>
  \<open>normalizedData\<close> (lines 6461 to 6466): the entries of the response, each stored under
  its normalised key; a key stored twice keeps its first place and its last status.
\<close>

definition normalizedData_of :: "(string \<times> string) list \<Rightarrow> (string \<times> string) list" where
  "normalizedData_of entries =
     fold (\<lambda>(dc, status) normalizedData. AList.update (normalizedDc dc) status normalizedData)
       entries []"

text \<open>
  \<open>availableDatacenters\<close> (lines 6477 to 6479): the filter is
  \<open>status && status !== 'unavailable' && status !== 'unknown'\<close>, and an empty string is
  falsy.
\<close>

definition availableDatacenters_of :: "(string \<times> string) list \<Rightarrow> string list" where
  "availableDatacenters_of normalizedData =
     map fst (filter (\<lambda>(dc, status). status \<noteq> [] \<and> status \<noteq> ''unavailable'' \<and> status \<noteq> ''unknown'')
       normalizedData)"

subsection \<open>fetchServerPrice, up to its request\<close>

text \<open>
  \<open>fetchServerPrice\<close> is called without \<open>await\<close>: what happens inside the caller is its
  part up to the \<open>await api.post\<close>, modelled here. Its continuation on the price
  response runs after the caller has finished.
\<close>

definition set_price :: "string \<Rightarrow> string \<Rightarrow> price_entry \<Rightarrow> servers_state \<Rightarrow> servers_state" where
  "set_price plan dc entry st =
     st\<lparr>serverPrices := (serverPrices st)
          (plan \<mapsto> (case serverPrices st plan of None \<Rightarrow> Map.empty | Some m \<Rightarrow> m)(dc \<mapsto> entry))\<rparr>"

definition fetchServerPrice :: "string \<Rightarrow> string list \<Rightarrow> string \<Rightarrow> servers_state \<Rightarrow> servers_state" where
  "fetchServerPrice plan options dc st =
     (if \<not> isAuthenticated st then
        set_price plan dc \<lparr>loading = False, error_of = Some NoApiKeyConfigured\<rparr> st
      else
        let s1 = set_price plan dc \<lparr>loading = True, error_of = None\<rparr> st;
            apiDc = convertDisplayDcToApiDc dc
        in send \<lparr>req_verb = POST, req_url = ''/servers/'' @ plan @ ''/price'', req_params = [],
                  req_body = PriceBody apiDc options, req_timeout = None\<rparr> s1)"

subsection \<open>checkAvailability\<close>

definition availability_errorMessage :: "string \<Rightarrow> js_error \<Rightarrow> toast_text" where
  "availability_errorMessage plan error =
     (if is_timeout error then AvailabilityTimeout plan
      else if map_option resp_status (err_response error) = Some 404 then PlanNotFound plan
      else if truthy (err_message error) then AvailabilityFailedWith plan (the (err_message error))
      else AvailabilityFailed plan)"

text \<open>
  The parameter \<open>response\<close> is what \<open>await api.get\<close> does: it rejects (\<open>Inl\<close>, after the
  response interceptor has run) or returns a response whose \<open>data\<close> has the given
  entries (\<open>Inr\<close>).
\<close>

definition checkAvailability ::
    "string \<Rightarrow> js_error + (string \<times> string) list \<Rightarrow> servers_state \<Rightarrow> servers_state" where
  "checkAvailability plan response st =
     (if \<not> isAuthenticated st then show_toast (ToastError ConfigureApiFirst) st
      else
        let s1 = st\<lparr>isCheckingAvailability := True, selectedServer := Some plan\<rparr>;
            s2 = show_toast (ToastInfo (CheckingAvailability plan)) s1;
            selectedOpts = (case selectedOptions st plan of None \<Rightarrow> [] | Some opts \<Rightarrow> opts);
            params = (if length selectedOpts > 0 then [(''options'', join selectedOpts '','')] else []);
            s3 = send \<lparr>req_verb = GET, req_url = ''/availability/'' @ plan, req_params = params,
                       req_body = NoBody, req_timeout = Some 120000\<rparr> s2;
            s_end =
              (case response of
                 Inr data \<Rightarrow>
                   let normalizedData = normalizedData_of data;
                       s4 = s3\<lparr>availability_of := (availability_of s3)(plan \<mapsto> normalizedData)\<rparr>;
                       availableDatacenters = availableDatacenters_of normalizedData;
                       s5 = (case availableDatacenters of
                               [] \<Rightarrow> s4
                             | firstAvailableDC # _ \<Rightarrow>
                                 if isAuthenticated st then
                                   let server = find (\<lambda>s. planCode s = plan) (servers st);
                                       finalOptions =
                                         (if length selectedOpts > 0 then selectedOpts
                                          else case server of
                                                 None \<Rightarrow> []
                                               | Some s \<Rightarrow> map opt_value (defaultOptions s))
                                   in fetchServerPrice plan finalOptions firstAvailableDC s4
                                 else s4)
                   in show_toast (ToastSuccess (AvailabilityUpdated plan)) s5
               | Inl error \<Rightarrow>
                   show_toast (ToastError (availability_errorMessage plan error))
                     (s3\<lparr>shown := shown s3 @ response_interceptor_toasts error\<rparr>))
        in s_end\<lparr>isCheckingAvailability := False, selectedServer := None\<rparr>)"

subsection \<open>addToQueue\<close>

text \<open>
  The three Chinese words that \<open>categorizeOption\<close> looks for in a label, as their UTF-8
  bytes: the words for "memory", "storage" and "bandwidth".
\<close>

definition zh_memory :: string where
  "zh_memory = [CHR 0xE5, CHR 0x86, CHR 0x85, CHR 0xE5, CHR 0xAD, CHR 0x98]"

definition zh_storage :: string where
  "zh_storage = [CHR 0xE5, CHR 0xAD, CHR 0x98, CHR 0xE5, CHR 0x82, CHR 0xA8]"

definition zh_bandwidth :: string where
  "zh_bandwidth = [CHR 0xE5, CHR 0xB8, CHR 0xA6, CHR 0xE5, CHR 0xAE, CHR 0xBD]"

definition category_of :: "ServerOption \<Rightarrow> category" where
  "category_of option =
     (let v = toLowerCase (opt_value option);
          l = toLowerCase (label option)
      in if js_includes v ''ram-'' \<or> js_includes l zh_memory \<or> js_includes l ''memory''
         then MemoryCategory
         else if js_includes v ''softraid'' \<or> js_includes v ''raid'' \<or>
                 js_includes l zh_storage \<or> js_includes l ''storage'' \<or>
                 js_includes l ''ssd'' \<or> js_includes l ''hdd'' \<or> js_includes l ''nvme''
         then StorageCategory
         else if js_includes v ''bandwidth'' \<or> js_includes v ''traffic'' \<or>
                 js_includes l zh_bandwidth \<or> js_includes l ''bandwidth''
         then NetworkCategory
         else OtherCategory)"

text \<open>
  \<open>categorizeOption\<close> as its effect on \<open>formattedOptions\<close>: an option value that is not
  among the plan's available options changes nothing; otherwise the option's label is
  pushed onto the list of its category, which is created empty on first use.
\<close>

definition categorizeOption ::
    "ServerPlan \<Rightarrow> string \<Rightarrow> (category \<times> string list) list \<Rightarrow> (category \<times> string list) list" where
  "categorizeOption server optionValue formattedOptions =
     (case find (\<lambda>opt. opt_value opt = optionValue) (availableOptions server) of
        None \<Rightarrow> formattedOptions
      | Some option \<Rightarrow>
          let c = category_of option;
              labels = (case map_of formattedOptions c of None \<Rightarrow> [] | Some ls \<Rightarrow> ls)
          in AList.update c (labels @ [label option]) formattedOptions)"

definition userSelectedOptions_of :: "servers_state \<Rightarrow> ServerPlan \<Rightarrow> string list" where
  "userSelectedOptions_of st server =
     (case selectedOptions st (planCode server) of
        None \<Rightarrow> map opt_value (defaultOptions server)
      | Some opts \<Rightarrow>
          if length opts > 0 then opts else map opt_value (defaultOptions server))"

definition queue_request :: "ServerPlan \<Rightarrow> string list \<Rightarrow> string \<Rightarrow> http_request" where
  "queue_request server userSelectedOptions dc =
     \<lparr>req_verb = POST, req_url = ''/queue'', req_params = [],
      req_body = QueueBody (planCode server) (convertDisplayDcToApiDc dc) userSelectedOptions,
      req_timeout = None\<rparr>"

text \<open>
  All the requests are issued by \<open>datacenters.map\<close> before \<open>await Promise.all\<close>. The
  parameter \<open>rejections\<close> lists the errors of the requests that fail, in the order in
  which they arrive; it is empty when every request succeeds. The first rejection ends
  the \<open>await\<close> and runs the \<open>catch\<close> block; each rejection passes the response
  interceptor first.
\<close>

definition addToQueue ::
    "ServerPlan \<Rightarrow> string list \<Rightarrow> js_error list \<Rightarrow> servers_state \<Rightarrow> servers_state" where
  "addToQueue server dcs rejections st =
     (if \<not> isAuthenticated st then show_toast (ToastError ConfigureApiFirst) st
      else if length dcs = 0 then show_toast (ToastError SelectOneDatacenter) st
      else
        let userSelectedOptions = userSelectedOptions_of st server;
            formattedOptions = fold (categorizeOption server) userSelectedOptions [];
            s1 = st\<lparr>sent := sent st @ map (queue_request server userSelectedOptions) dcs\<rparr>
        in case rejections of
             [] \<Rightarrow>
               let custom = (length userSelectedOptions > 0 \<and>
                             list_ex (\<lambda>opt. opt \<notin> set (map opt_value (defaultOptions server)))
                               userSelectedOptions)
               in show_toast
                    (ToastSuccess (AddedToQueue (planCode server) (length dcs)
                       (if custom then Some formattedOptions else None))) s1
           | error # later \<Rightarrow>
               let s2 = s1\<lparr>shown := shown s1 @ response_interceptor_toasts error\<rparr>;
                   s3 = show_toast (ToastError AddToQueueFailed) s2
               in s3\<lparr>shown := shown s3 @ concat (map response_interceptor_toasts later)\<rparr>)"

subsection \<open>Batch subscription\<close>

text \<open>\<open>new Set(xs)\<close> in insertion order: each element once, at its first place.\<close>

definition new_Set :: "string list \<Rightarrow> string list" where
  "new_Set xs = fold (\<lambda>x acc. if x \<in> set acc then acc else acc @ [x]) xs []"

text \<open>
  \<open>loadSubscribedServers\<close>: the parameter is the outcome of \<open>GET /monitor/subscriptions\<close>,
  on success the plan codes of the subscriptions returned. Every failure is caught inside
  the function, so it always returns. (It also mirrors the list into \<open>localStorage\<close>,
  which nothing here reads.)
\<close>

definition loadSubscribedServers :: "js_error + string list \<Rightarrow> servers_state \<Rightarrow> servers_state" where
  "loadSubscribedServers response st =
     (if \<not> isAuthenticated st then st
      else
        let s1 = send \<lparr>req_verb = GET, req_url = ''/monitor/subscriptions'', req_params = [],
                       req_body = NoBody, req_timeout = None\<rparr> st
        in case response of
             Inr planCodes \<Rightarrow> s1\<lparr>subscribedServers := new_Set planCodes\<rparr>
           | Inl error \<Rightarrow> s1\<lparr>shown := shown s1 @ response_interceptor_toasts error\<rparr>)"

definition batchAddAllServersToMonitor :: "servers_state \<Rightarrow> servers_state" where
  "batchAddAllServersToMonitor st =
     (if \<not> isAuthenticated st then show_toast (ToastError ConfigureApiFirst) st
      else if length (servers st) = 0 then show_toast (ToastError ServerListEmpty) st
      else st\<lparr>showBatchMonitorDialog := True\<rparr>)"

text \<open>
  The summary the batch endpoint returns, as the handler reads it: \<open>added\<close>, \<open>skipped\<close>
  and \<open>errors\<close>, the last one possibly absent. After a successful request the handler
  reloads the subscriptions and calls \<open>setServers\<close> with a copy of the same list, which
  changes no value of the state.
\<close>

record batch_result =
  added :: int
  skipped :: int
  errors :: "string list option"

text \<open>The message built in lines 6938 to 6946, line by line.\<close>

definition batch_message :: "batch_result \<Rightarrow> batch_line list" where
  "batch_message result =
     [BatchDoneLine, BatchAddedLine (added result)]
     @ (if skipped result > 0 then [BatchSkippedLine (skipped result)] else [])
     @ (case errors result of
          None \<Rightarrow> []
        | Some es \<Rightarrow> if length es > 0 then [BatchFailedLine (length es)] else [])
     @ [BatchFooterLine]"

definition batch_errorMsg :: "js_error \<Rightarrow> toast_text" where
  "batch_errorMsg error =
     (case err_response error of
        None \<Rightarrow> BatchFailed
      | Some response \<Rightarrow>
          if truthy (data_message response) then ServerMessage (the (data_message response))
          else BatchFailed)"

definition confirmBatchAddAllServersToMonitor ::
    "js_error + batch_result \<Rightarrow> js_error + string list \<Rightarrow> servers_state \<Rightarrow> servers_state" where
  "confirmBatchAddAllServersToMonitor response subscriptions st =
     (let s1 = st\<lparr>showBatchMonitorDialog := False\<rparr>;
          s2 = send \<lparr>req_verb = POST, req_url = ''/monitor/subscriptions/batch-add-all'',
                     req_params = [], req_body = BatchAddAllBody True True,
                     req_timeout = None\<rparr> s1
      in case response of
           Inr result \<Rightarrow>
             let s3 = loadSubscribedServers subscriptions s2
             in show_toast (ToastSuccess (BatchSummary (batch_message result))) s3
         | Inl error \<Rightarrow>
             show_toast (ToastError (batch_errorMsg error))
               (s2\<lparr>shown := shown s2 @ response_interceptor_toasts error\<rparr>))"

subsection \<open>The batch-add-all operation\<close>

text \<open>
  Modelled from the spec: the batch-add-all operation of the subscription registry, the
  endpoint \<open>POST /monitor/subscriptions/batch-add-all\<close> that the handler calls; its code is
  not among the sources. The spec's words are: "Batch-add-all: for every known SKU, create
  a subscription if none exists for that SKU yet (idempotent: skips SKUs already
  subscribed, reports counts of added/skipped/failed)", and "batch operations return
  structured {added, skipped, errors} summaries rather than failing atomically". A
  subscription is the spec's record \<open>{id, skuCode, facilityCodes, notifyOnAvailable,
  notifyOnUnavailable, createdAt}\<close>, with an empty \<open>facilityCodes\<close> for "all facilities"
  and a unique \<open>id\<close>. Creating one subscription can fail; \<open>create_error sku\<close> is the
  error of the creation for \<open>sku\<close>, or \<^const>\<open>None\<close> when it succeeds. The two flags are
  those of the request body, \<open>now\<close> is the time of the call.
\<close>

record Subscription =
  sub_id :: nat
  skuCode :: string
  facilityCodes :: "string list"
  notifyOnAvailable :: bool
  notifyOnUnavailable :: bool
  createdAt :: nat

text \<open>
  Modelled from the spec: an \<open>id\<close> that no subscription of the registry has (the spec
  asks for unique ids), and "a subscription exists for that SKU".
\<close>

definition fresh_id :: "Subscription list \<Rightarrow> nat" where
  "fresh_id registry = Suc (fold max (map sub_id registry) 0)"

definition subscribed :: "Subscription list \<Rightarrow> string \<Rightarrow> bool" where
  "subscribed registry sku = list_ex (\<lambda>sub. skuCode sub = sku) registry"

text \<open>The errors of a summary as a list, empty when the field is absent.\<close>

definition errors_list :: "batch_result \<Rightarrow> string list" where
  "errors_list summary = (case errors summary of None \<Rightarrow> [] | Some es \<Rightarrow> es)"

text \<open>
  Modelled from the spec: the batch's work for one known SKU. A SKU that has a subscription
  is skipped and counted; otherwise a subscription for all facilities is created and
  counted, or the error of its creation is recorded and the batch goes on.
\<close>

definition batch_add_step ::
    "(string \<Rightarrow> string option) \<Rightarrow> bool \<Rightarrow> bool \<Rightarrow> nat \<Rightarrow> string \<Rightarrow>
     Subscription list \<times> batch_result \<Rightarrow> Subscription list \<times> batch_result" where
  "batch_add_step create_error notifyAvailable notifyUnavailable now sku acc =
     (let registry = fst acc; summary = snd acc
      in if subscribed registry sku then (registry, summary\<lparr>skipped := skipped summary + 1\<rparr>)
         else case create_error sku of
                Some e \<Rightarrow> (registry, summary\<lparr>errors := Some (errors_list summary @ [e])\<rparr>)
              | None \<Rightarrow>
                  (registry @
                     [\<lparr>sub_id = fresh_id registry, skuCode = sku, facilityCodes = [],
                       notifyOnAvailable = notifyAvailable,
                       notifyOnUnavailable = notifyUnavailable, createdAt = now\<rparr>],
                   summary\<lparr>added := added summary + 1\<rparr>))"

text \<open>
  Modelled from the spec: the whole operation, over the known SKUs in order, starting from
  the summary \<open>{added: 0, skipped: 0, errors: []}\<close>; it returns the new registry and the
  summary.
\<close>

definition batch_add_all ::
    "(string \<Rightarrow> string option) \<Rightarrow> bool \<Rightarrow> bool \<Rightarrow> nat \<Rightarrow> Subscription list \<Rightarrow> string list \<Rightarrow>
     Subscription list \<times> batch_result" where
  "batch_add_all create_error notifyAvailable notifyUnavailable now registry skus =
     fold (batch_add_step create_error notifyAvailable notifyUnavailable now) skus
       (registry, \<lparr>added = 0, skipped = 0, errors = Some []\<rparr>)"

text \<open>The number of SKUs a summary accounts for.\<close>

definition counted :: "batch_result \<Rightarrow> int" where
  "counted summary = added summary + skipped summary + int (length (errors_list summary))"

section \<open>Observing a handler, and sample inputs\<close>

text \<open>The requests a handler adds to those already sent.\<close>

definition issued :: "servers_state \<Rightarrow> servers_state \<Rightarrow> http_request list" where
  "issued st st' = drop (length (sent st)) (sent st')"

text \<open>Concrete items, states and errors on which the properties below are run.\<close>

definition demo_item :: "string \<Rightarrow> string list \<Rightarrow> AvailabilityItem" where
  "demo_item code statuses =
     \<lparr> fqn = code, item_memory = ''ram-64g'', item_planCode = code, item_server = code,
       item_storage = ''ssd'',
       systemStorage = None,
       datacenters = map (\<lambda>a. \<lparr> datacenter = ''gra'', availability = a \<rparr>) statuses \<rparr>"

definition demo_state :: page_state where
  "demo_state =
     \<lparr> availabilities = Some [demo_item ''24ska01'' [''unavailable'']], isLoading = False,
       apiBaseUrl = ''https://eu.api.ovh.com'', toasts = [], requested = [] \<rparr>"

definition demo_timeout :: js_error where
  "demo_timeout =
     \<lparr> err_code = Some ''ECONNABORTED'', err_message = Some ''timeout of 30000ms exceeded'',
       err_response = None, err_request = True \<rparr>"

definition demo_option :: "string \<Rightarrow> string \<Rightarrow> ServerOption" where
  "demo_option l v = \<lparr>label = l, opt_value = v, family = None, isDefault = None\<rparr>"

definition demo_server :: ServerPlan where
  "demo_server =
     \<lparr>planCode = ''24ska01'', name = ''KS-A'', description = None, cpu = ''Atom N2800'',
      memory = ''4g'', storage = ''1x1000'', bandwidth = ''100'', vrackBandwidth = ''none'',
      defaultOptions = [demo_option ''4 GB memory'' ''ram-4g-ska01'', demo_option ''1 TB HDD'' ''softraid-1x1000sa-ska01''],
      availableOptions = [demo_option ''4 GB memory'' ''ram-4g-ska01'', demo_option ''1 TB HDD'' ''softraid-1x1000sa-ska01'',
                          demo_option ''2 TB HDD'' ''softraid-1x2000sa-ska01''],
      plan_datacenters = []\<rparr>"

definition demo_servers_state :: "bool \<Rightarrow> string list \<Rightarrow> servers_state" where
  "demo_servers_state auth opts =
     \<lparr>isAuthenticated = auth, servers = [demo_server],
      selectedOptions = (if opts = [] then Map.empty else [''24ska01'' \<mapsto> opts]),
      availability_of = Map.empty, serverPrices = Map.empty, isCheckingAvailability = False,
      selectedServer = None, showBatchMonitorDialog = True, subscribedServers = [],
      shown = [], sent = []\<rparr>"

text \<open>A sample run of the batch: one plan is subscribed already, one creation fails.\<close>

definition demo_create_error :: "string \<Rightarrow> string option" where
  "demo_create_error sku = (if sku = ''24sk60'' then Some ''24sk60: quota exceeded'' else None)"

definition demo_registry :: "Subscription list" where
  "demo_registry =
     [\<lparr>sub_id = 1, skuCode = ''24ska01'', facilityCodes = [], notifyOnAvailable = True,
       notifyOnUnavailable = False, createdAt = 1720000000000\<rparr>]"

section \<open>Properties of the availability page\<close>

lemma length_filter_mono:
  assumes "\<And>x. P x \<Longrightarrow> Q x"
  shows "length (filter P xs) \<le> length (filter Q xs)"
  using assms by (induction xs) auto

lemma dc_one_hour_in_stock: "dc_one_hour dc \<Longrightarrow> dc_in_stock dc"
  by (auto simp: dc_one_hour_def dc_in_stock_def)

text \<open>
  C5. Every item counted by the "within 1 hour" statistic is counted by the "available"
  statistic, so for every list of items \<open>stats.oneHour\<close> is at most \<open>stats.available\<close>.
\<close>

theorem stats_oneHour_le_available:
  "oneHour (stats filteredData) \<le> available (stats filteredData)"
proof -
  have "list_ex dc_one_hour dcs \<Longrightarrow> list_ex dc_in_stock dcs" for dcs
    by (auto simp: list_ex_iff dest: dc_one_hour_in_stock)
  then show ?thesis
    by (simp add: stats_def length_filter_mono)
qed

subsection \<open>fetchAvailabilities: failure and success\<close>

text \<open>
  When the request itself is rejected (network error, timeout, an error status), every
  state the call passes through, and the state it ends in, holds the availabilities list
  it started with; what is shown after the "fetching" notice is one error toast.
\<close>

lemma rejected_fetch_keeps_availabilities:
  "(\<forall>s \<in> set (fetchAvailabilities_steps st (Inl error)). availabilities s = availabilities st)
   \<and> availabilities (fetchAvailabilities st (Inl error)) = availabilities st
   \<and> (apiBaseUrl st \<noteq> [] \<longrightarrow>
        toasts (fetchAvailabilities st (Inl error))
          = toasts st @ [ToastInfo FetchingData, ToastError (fetch_errorMessage error)])"
  by (simp add: fetchAvailabilities_def fetchAvailabilities_steps_def Let_def)

lemma rejected_fetch_run:
  "length (fetchAvailabilities_steps demo_state (Inl demo_timeout)) = 5
   \<and> availabilities (fetchAvailabilities demo_state (Inl demo_timeout))
       = Some [demo_item ''24ska01'' [''unavailable'']]
   \<and> toasts (fetchAvailabilities demo_state (Inl demo_timeout))
       = [ToastInfo FetchingData, ToastError FetchTimeout]"
  using rejected_fetch_keeps_availabilities [of demo_state demo_timeout]
  by (simp add: fetchAvailabilities_steps_def demo_state_def demo_timeout_def Let_def
      fetch_errorMessage_def is_timeout_def)

lemma length_of_null_errorMessage:
  "fetch_errorMessage length_of_null
     = FetchFailedWith (''Cannot read properties of null (reading '' @ [CHR 0x27] @ ''length''
                          @ [CHR 0x27] @ '')'')"
  by (simp add: fetch_errorMessage_def is_timeout_def length_of_null_def)

text \<open>
  C2. The claim says that a fetch that fails in any way, with any thrown error, leaves
  the held list unchanged and reports only an error. The code does not keep this on the
  second way into its \<open>catch\<close> block: when the request returns a reply whose body is
  \<open>null\<close>, the held list has been replaced by \<open>null\<close> before the error is thrown, and the
  call ends with the "fetch failed" error toast over a cleared state.
\<close>

theorem null_reply_clears_availabilities:
  "availabilities demo_state = Some [demo_item ''24ska01'' [''unavailable'']]
   \<and> availabilities (fetchAvailabilities demo_state (Inr None)) = None
   \<and> toasts (fetchAvailabilities demo_state (Inr None))
       = [ToastInfo FetchingData, ToastError (fetch_errorMessage length_of_null)]
   \<and> isLoading (fetchAvailabilities demo_state (Inr None)) = False"
  by (simp add: fetchAvailabilities_def fetchAvailabilities_steps_def demo_state_def Let_def)

text \<open>
  C3. When the request returns, the list held at the end is exactly the response data,
  and it was put there by one assignment of the whole list: every state the call passes
  through holds either the old list or the new one, never a mixture. This is so for
  every reply, an array of items (the successful fetch) as well as \<open>null\<close>.
\<close>

theorem successful_fetch_replaces_availabilities:
  assumes "apiBaseUrl st \<noteq> []"
  shows "availabilities (fetchAvailabilities st (Inr data)) = data
   \<and> (\<forall>s \<in> set (fetchAvailabilities_steps st (Inr data)).
         availabilities s = availabilities st \<or> availabilities s = data)"
  using assms
  by (cases data) (simp_all add: fetchAvailabilities_def fetchAvailabilities_steps_def Let_def)

theorem successful_fetch_replaces_availabilities_witness:
  "apiBaseUrl demo_state \<noteq> []
   \<and> availabilities (fetchAvailabilities demo_state (Inr (Some [demo_item ''24sk50'' [''1H-high'']])))
       = Some [demo_item ''24sk50'' [''1H-high'']]
   \<and> toasts (fetchAvailabilities demo_state (Inr (Some [demo_item ''24sk50'' [''1H-high'']])))
       = [ToastInfo FetchingData, ToastSuccess (FetchedRecords 1)]
   \<and> map availabilities
        (fetchAvailabilities_steps demo_state (Inr (Some [demo_item ''24sk50'' [''1H-high'']])))
       = [Some [demo_item ''24ska01'' [''unavailable'']], Some [demo_item ''24ska01'' [''unavailable'']],
          Some [demo_item ''24ska01'' [''unavailable'']], Some [demo_item ''24sk50'' [''1H-high'']],
          Some [demo_item ''24sk50'' [''1H-high'']], Some [demo_item ''24sk50'' [''1H-high'']]]"
proof -
  have url: "apiBaseUrl demo_state \<noteq> []"
    by (simp add: demo_state_def)
  have final: "availabilities (fetchAvailabilities demo_state (Inr (Some [demo_item ''24sk50'' [''1H-high'']])))
       = Some [demo_item ''24sk50'' [''1H-high'']]"
    using successful_fetch_replaces_availabilities [OF url, of "Some [demo_item ''24sk50'' [''1H-high'']]"]
    by (rule conjunct1)
  have shown: "toasts (fetchAvailabilities demo_state (Inr (Some [demo_item ''24sk50'' [''1H-high'']])))
       = [ToastInfo FetchingData, ToastSuccess (FetchedRecords 1)]"
    by (simp add: fetchAvailabilities_def fetchAvailabilities_steps_def demo_state_def Let_def)
  have steps: "map availabilities
        (fetchAvailabilities_steps demo_state (Inr (Some [demo_item ''24sk50'' [''1H-high'']])))
       = [Some [demo_item ''24ska01'' [''unavailable'']], Some [demo_item ''24ska01'' [''unavailable'']],
          Some [demo_item ''24ska01'' [''unavailable'']], Some [demo_item ''24sk50'' [''1H-high'']],
          Some [demo_item ''24sk50'' [''1H-high'']], Some [demo_item ''24sk50'' [''1H-high'']]]"
    by (simp add: fetchAvailabilities_steps_def demo_state_def Let_def)
  show ?thesis
    using url final shown steps by (intro conjI)
qed

subsection \<open>Pagination is a partition\<close>

text \<open>The page size of the page is positive on both kinds of device.\<close>

lemma itemsPerPage_positive: "0 < itemsPerPage_of isMobile"
  by (simp add: itemsPerPage_of_def)

lemma slice_nat: "slice xs (int s) (int s + int n) = take n (drop s xs)"
proof (cases "s \<le> length xs")
  case True
  have k: "(if int s < 0 then max (int (length xs) + int s) 0 else min (int s) (int (length xs))) = int s"
    using True by simp
  have f: "(if int s + int n < 0 then max (int (length xs) + (int s + int n)) 0
            else min (int s + int n) (int (length xs))) = int (min (s + n) (length xs))"
    by simp
  have "take (nat (int (min (s + n) (length xs)) - int s)) (drop s xs) = take n (drop s xs)"
  proof (cases "s + n \<le> length xs")
    case True
    then have "nat (int (min (s + n) (length xs)) - int s) = n" by simp
    then show ?thesis by simp
  next
    case False
    then have "nat (int (min (s + n) (length xs)) - int s) = length xs - s"
      using True by (simp add: min_def)
    moreover have "length (drop s xs) \<le> n" using False by simp
    ultimately show ?thesis by simp
  qed
  then show ?thesis
    unfolding slice_def Let_def k f by simp
next
  case False
  have k: "(if int s < 0 then max (int (length xs) + int s) 0 else min (int s) (int (length xs))) = int (length xs)"
    using False by simp
  have f: "(if int s + int n < 0 then max (int (length xs) + (int s + int n)) 0
            else min (int s + int n) (int (length xs))) = int (length xs)"
    using False by simp
  show ?thesis
    unfolding slice_def Let_def k f using False by simp
qed

lemma paginatedData_nat:
  assumes "0 < itemsPerPage"
  shows "paginatedData xs (int k + 1) itemsPerPage
           = take (nat itemsPerPage) (drop (k * nat itemsPerPage) xs)"
proof -
  define n where "n = nat itemsPerPage"
  have ipp: "itemsPerPage = int n"
    using assms by (simp add: n_def)
  have start: "(int k + 1 - 1) * itemsPerPage = int (k * n)"
    by (simp add: ipp)
  show ?thesis
    unfolding paginatedData_def Let_def start
    using slice_nat [of xs "k * n" n] by (simp add: ipp)
qed

lemma concat_chunks:
  "concat (map (\<lambda>k. take n (drop (k * n) xs)) [0..<m]) = take (m * n) xs"
proof (induction m)
  case 0
  show ?case by simp
next
  case (Suc m)
  have "take (m * n + n) xs = take (m * n) xs @ take n (drop (m * n) xs)"
    by (rule take_add)
  moreover have "Suc m * n = m * n + n" by simp
  ultimately show ?case using Suc by (simp add: add.commute)
qed

lemma upto_as_upt: "[1..int m] = map (\<lambda>k. int k + 1) [0..<m]"
proof (induction m)
  case 0
  show ?case by simp
next
  case (Suc m)
  have "[1..int (Suc m)] = [1..int m] @ [int m + 1]"
    using upto_rec2 [of 1 "int (Suc m)"] by (simp add: add.commute)
  with Suc show ?case by simp
qed

lemma less_totalPages_iff:
  assumes "0 < itemsPerPage"
  shows "p < totalPages xs itemsPerPage \<longleftrightarrow> p * itemsPerPage < int (length xs)"
proof -
  have "p < totalPages xs itemsPerPage
          \<longleftrightarrow> real_of_int p < real (length xs) / real_of_int itemsPerPage"
    by (simp add: totalPages_def less_ceiling_iff)
  also have "\<dots> \<longleftrightarrow> real_of_int p * real_of_int itemsPerPage < real (length xs)"
    using assms by (simp add: pos_less_divide_eq)
  also have "\<dots> \<longleftrightarrow> real_of_int (p * itemsPerPage) < real_of_int (int (length xs))"
    by simp
  also have "\<dots> \<longleftrightarrow> p * itemsPerPage < int (length xs)"
    by (rule of_int_less_iff)
  finally show ?thesis .
qed

lemma totalPages_covers:
  assumes "0 < itemsPerPage"
  shows "0 \<le> totalPages xs itemsPerPage"
    and "length xs \<le> nat (totalPages xs itemsPerPage) * nat itemsPerPage"
proof -
  let ?T = "totalPages xs itemsPerPage"
  have "\<not> (-1) * itemsPerPage < int (length xs) \<Longrightarrow> False"
    using assms by simp
  have "\<not> ?T < 0"
  proof
    assume "?T < 0"
    then have "?T \<le> -1" by simp
    then have "\<not> -1 < ?T" by simp
    then have "\<not> (-1) * itemsPerPage < int (length xs)"
      using less_totalPages_iff [OF assms, of "-1" xs] by simp
    then show False using assms by simp
  qed
  then show T0: "0 \<le> ?T" by simp
  have "\<not> ?T * itemsPerPage < int (length xs)"
    using less_totalPages_iff [OF assms, of ?T xs] by simp
  then have "int (length xs) \<le> int (nat ?T) * int (nat itemsPerPage)"
    using T0 assms by simp
  then show "length xs \<le> nat ?T * nat itemsPerPage"
    by (metis of_nat_le_iff of_nat_mult)
qed

lemma pages_concat:
  assumes "0 < itemsPerPage"
  shows "concat (map (\<lambda>p. paginatedData xs p itemsPerPage) [1..totalPages xs itemsPerPage]) = xs"
proof -
  define m where "m = nat (totalPages xs itemsPerPage)"
  have T: "totalPages xs itemsPerPage = int m"
    using totalPages_covers(1) [OF assms, of xs] by (simp add: m_def)
  have "concat (map (\<lambda>p. paginatedData xs p itemsPerPage) [1..int m])
          = concat (map (\<lambda>k. take (nat itemsPerPage) (drop (k * nat itemsPerPage) xs)) [0..<m])"
    by (simp add: upto_as_upt comp_def paginatedData_nat [OF assms])
  also have "\<dots> = take (m * nat itemsPerPage) xs"
    by (rule concat_chunks)
  also have "\<dots> = xs"
    using totalPages_covers(2) [OF assms, of xs] by (simp add: m_def)
  finally show ?thesis by (simp add: T)
qed

lemma full_page:
  assumes "0 < itemsPerPage" and "1 \<le> p" and "p < totalPages xs itemsPerPage"
  shows "length (paginatedData xs p itemsPerPage) = nat itemsPerPage"
proof -
  define k where "k = nat (p - 1)"
  have p: "p = int k + 1" using assms(2) by (simp add: k_def)
  have "(int k + 1) * itemsPerPage < int (length xs)"
    using less_totalPages_iff [OF assms(1), of p xs] assms(3) by (simp add: p)
  then have "int (k * nat itemsPerPage + nat itemsPerPage) < int (length xs)"
    using assms(1) by (simp add: algebra_simps)
  then have "k * nat itemsPerPage + nat itemsPerPage < length xs"
    by (simp only: of_nat_less_iff)
  then show ?thesis
    unfolding p paginatedData_nat [OF assms(1)] by simp
qed

lemma position_on_one_page:
  assumes "0 < itemsPerPage" and "i < length xs"
  shows "\<exists>!p. 1 \<le> p \<and> p \<le> totalPages xs itemsPerPage \<and>
           (\<exists>j<length (paginatedData xs p itemsPerPage).
              int i = (p - 1) * itemsPerPage + int j \<and> paginatedData xs p itemsPerPage ! j = xs ! i)"
proof -
  define n where "n = nat itemsPerPage"
  have ipp: "itemsPerPage = int n" and npos: "0 < n"
    using assms(1) by (simp_all add: n_def)
  have page: "paginatedData xs (int k + 1) itemsPerPage = take n (drop (k * n) xs)" for k
    using paginatedData_nat [OF assms(1)] by (simp add: n_def)
  define k where "k = i div n"
  define j where "j = i mod n"
  have i: "i = k * n + j" by (simp add: k_def j_def)
  have jn: "j < n" using npos by (simp add: j_def)
  show ?thesis
  proof (rule ex1I [of _ "int k + 1"])
    have "int k * itemsPerPage < int (length xs)"
    proof -
      have "k * n < length xs" using i assms(2) by simp
      then have "int (k * n) < int (length xs)" by (simp only: of_nat_less_iff)
      then show ?thesis by (simp add: ipp)
    qed
    then have "int k < totalPages xs itemsPerPage"
      using less_totalPages_iff [OF assms(1), of "int k" xs] by simp
    then have le: "int k + 1 \<le> totalPages xs itemsPerPage" by simp
    have jl: "j < length (take n (drop (k * n) xs))"
      using jn i assms(2) by simp
    have nth: "take n (drop (k * n) xs) ! j = xs ! i"
      using jn i assms(2) by simp
    have pos: "int i = (int k + 1 - 1) * itemsPerPage + int j"
      by (simp add: ipp i)
    show "1 \<le> int k + 1 \<and> int k + 1 \<le> totalPages xs itemsPerPage \<and>
           (\<exists>j<length (paginatedData xs (int k + 1) itemsPerPage).
              int i = (int k + 1 - 1) * itemsPerPage + int j \<and>
              paginatedData xs (int k + 1) itemsPerPage ! j = xs ! i)"
      unfolding page using le jl nth pos by auto
  next
    fix q
    assume q: "1 \<le> q \<and> q \<le> totalPages xs itemsPerPage \<and>
           (\<exists>j<length (paginatedData xs q itemsPerPage).
              int i = (q - 1) * itemsPerPage + int j \<and> paginatedData xs q itemsPerPage ! j = xs ! i)"
    define k' where "k' = nat (q - 1)"
    have q': "q = int k' + 1" using q by (simp add: k'_def)
    from q obtain j' where j': "j' < length (paginatedData xs q itemsPerPage)"
      and eq: "int i = (q - 1) * itemsPerPage + int j'" by blast
    have "j' < n" using j' unfolding q' page by simp
    moreover have "int i = int (k' * n + j')" using eq by (simp add: q' ipp)
    then have "i = k' * n + j'" by (simp only: of_nat_eq_iff)
    ultimately have "k' = i div n" by simp
    then show "q = int k + 1" by (simp add: q' k_def)
  qed
qed

text \<open>
  C10. For a positive page size the pages 1 to \<open>totalPages\<close> partition the filtered list:
  concatenated in page order they give the list back, every page before the last holds
  exactly \<open>itemsPerPage\<close> items, and every position of the list lies on exactly one page
  (at offset \<open>j\<close> of page \<open>p\<close>, with \<open>(p - 1) * itemsPerPage + j\<close> the position).
\<close>

theorem pagination_partition:
  assumes "0 < itemsPerPage"
  shows "concat (map (\<lambda>p. paginatedData filteredData p itemsPerPage)
                   [1..totalPages filteredData itemsPerPage]) = filteredData
   \<and> (\<forall>p. 1 \<le> p \<and> p < totalPages filteredData itemsPerPage \<longrightarrow>
          length (paginatedData filteredData p itemsPerPage) = nat itemsPerPage)
   \<and> (\<forall>i<length filteredData.
        \<exists>!p. 1 \<le> p \<and> p \<le> totalPages filteredData itemsPerPage \<and>
          (\<exists>j<length (paginatedData filteredData p itemsPerPage).
             int i = (p - 1) * itemsPerPage + int j \<and>
             paginatedData filteredData p itemsPerPage ! j = filteredData ! i))"
proof (intro conjI allI impI)
  show "concat (map (\<lambda>p. paginatedData filteredData p itemsPerPage)
                   [1..totalPages filteredData itemsPerPage]) = filteredData"
    by (rule pages_concat [OF assms])
next
  fix p
  assume "1 \<le> p \<and> p < totalPages filteredData itemsPerPage"
  then have "1 \<le> p" and "p < totalPages filteredData itemsPerPage"
    by simp_all
  then show "length (paginatedData filteredData p itemsPerPage) = nat itemsPerPage"
    by (rule full_page [OF assms])
next
  fix i
  assume "i < length filteredData"
  then show "\<exists>!p. 1 \<le> p \<and> p \<le> totalPages filteredData itemsPerPage \<and>
          (\<exists>j<length (paginatedData filteredData p itemsPerPage).
             int i = (p - 1) * itemsPerPage + int j \<and>
             paginatedData filteredData p itemsPerPage ! j = filteredData ! i)"
    by (rule position_on_one_page [OF assms])
qed

theorem pagination_partition_witness:
  "(0::int) < 2
   \<and> totalPages ''abcde'' 2 = 3
   \<and> paginatedData ''abcde'' 1 2 = ''ab''
   \<and> paginatedData ''abcde'' 2 2 = ''cd''
   \<and> paginatedData ''abcde'' 3 2 = ''e''
   \<and> concat (map (\<lambda>p. paginatedData ''abcde'' p 2) [1..totalPages ''abcde'' 2]) = ''abcde''"
proof -
  have pos: "(0::int) < 2" by simp
  have T: "totalPages ''abcde'' 2 = 3"
    by (simp add: totalPages_def)
  have p1: "paginatedData ''abcde'' 1 2 = ''ab''"
    and p2: "paginatedData ''abcde'' 2 2 = ''cd''"
    and p3: "paginatedData ''abcde'' 3 2 = ''e''"
    by (simp_all add: paginatedData_def slice_def Let_def)
  have all: "concat (map (\<lambda>p. paginatedData ''abcde'' p 2) [1..totalPages ''abcde'' 2]) = ''abcde''"
    using pagination_partition [OF pos, of "''abcde''"] by (rule conjunct1)
  show ?thesis
    using pos T p1 p2 p3 all by (intro conjI)
qed

section \<open>Properties of the shared API client\<close>

lemma getApiSecretKey_stored:
  "ls ''api_secret_key'' = Some k \<Longrightarrow> k \<noteq> [] \<Longrightarrow> getApiSecretKey ls = k"
  by (simp add: getApiSecretKey_def or_default_def API_SECRET_KEY_STORAGE_def)

lemma getApiSecretKey_empty:
  "ls ''api_secret_key'' = None \<or> ls ''api_secret_key'' = Some [] \<Longrightarrow> getApiSecretKey ls = []"
  by (auto simp: getApiSecretKey_def or_default_def API_SECRET_KEY_STORAGE_def)

lemma merged_api_key: "headers (merge_config config) ''X-API-Key'' = headers config ''X-API-Key''"
  by (simp add: merge_config_def apiClient_headers_def map_add_def split: option.splits)

text \<open>
  C8, as amended. A request sent through the client carries \<open>X-API-Key\<close> equal to the
  stored key when the stored key is not empty, and always carries \<open>X-Request-Time\<close>. When
  the stored key is empty or absent the interceptor adds no \<open>X-API-Key\<close>: the request has
  the header exactly if the caller's own configuration set one, with the caller's value.
\<close>

theorem api_key_header:
  "(\<forall>k. ls ''api_secret_key'' = Some k \<and> k \<noteq> [] \<longrightarrow>
        headers (apiClient_send ls now config) ''X-API-Key'' = Some k)
   \<and> (ls ''api_secret_key'' = None \<or> ls ''api_secret_key'' = Some [] \<longrightarrow>
        headers (apiClient_send ls now config) ''X-API-Key'' = headers config ''X-API-Key'')
   \<and> headers (apiClient_send ls now config) ''X-Request-Time'' = Some (toString now)"
proof (intro conjI allI impI)
  fix k
  assume "ls ''api_secret_key'' = Some k \<and> k \<noteq> []"
  then have "getApiSecretKey ls = k" and "k \<noteq> []"
    by (simp_all add: getApiSecretKey_stored)
  then show "headers (apiClient_send ls now config) ''X-API-Key'' = Some k"
    by (simp add: apiClient_send_def request_interceptor_def Let_def)
next
  assume "ls ''api_secret_key'' = None \<or> ls ''api_secret_key'' = Some []"
  then have "getApiSecretKey ls = []"
    by (rule getApiSecretKey_empty)
  then show "headers (apiClient_send ls now config) ''X-API-Key'' = headers config ''X-API-Key''"
    by (simp add: apiClient_send_def request_interceptor_def Let_def merged_api_key)
next
  show "headers (apiClient_send ls now config) ''X-Request-Time'' = Some (toString now)"
    by (simp add: apiClient_send_def request_interceptor_def Let_def)
qed

theorem api_key_header_witness:
  "headers (apiClient_send [''api_secret_key'' \<mapsto> ''s3cret''] 1730000000123
              \<lparr>headers = Map.empty, rest = ()\<rparr>) ''X-API-Key'' = Some ''s3cret''
   \<and> headers (apiClient_send Map.empty 1730000000123
              \<lparr>headers = Map.empty, rest = ()\<rparr>) ''X-API-Key'' = None
   \<and> headers (apiClient_send Map.empty 1730000000123
              \<lparr>headers = Map.empty, rest = ()\<rparr>) ''X-Request-Time'' = Some ''1730000000123''"
proof -
  have "headers (apiClient_send [''api_secret_key'' \<mapsto> ''s3cret''] 1730000000123
              \<lparr>headers = Map.empty, rest = ()\<rparr>) ''X-API-Key'' = Some ''s3cret''"
    using api_key_header [of "[''api_secret_key'' \<mapsto> ''s3cret'']" 1730000000123
        "\<lparr>headers = Map.empty, rest = ()\<rparr>"]
    by simp
  moreover have "headers (apiClient_send Map.empty 1730000000123
              \<lparr>headers = Map.empty, rest = ()\<rparr>) ''X-API-Key'' = None"
    using api_key_header [of Map.empty 1730000000123 "\<lparr>headers = Map.empty, rest = ()\<rparr>"]
    by simp
  moreover have "toString 1730000000123 = ''1730000000123''"
    by (simp add: toString.simps)
  then have "headers (apiClient_send Map.empty 1730000000123
              \<lparr>headers = Map.empty, rest = ()\<rparr>) ''X-Request-Time'' = Some ''1730000000123''"
    using api_key_header [of Map.empty 1730000000123 "\<lparr>headers = Map.empty, rest = ()\<rparr>"]
    by simp
  ultimately show ?thesis by (intro conjI)
qed

text \<open>
  The claim as stated fails: with no key stored, a request whose caller set \<open>X-API-Key\<close>
  still carries the header.
\<close>

theorem api_key_header_counterexample:
  "getApiSecretKey Map.empty = []
   \<and> headers (apiClient_send Map.empty 0
                \<lparr>headers = [''X-API-Key'' \<mapsto> ''from-caller''], rest = ()\<rparr>) ''X-API-Key''
       = Some ''from-caller''"
  by (simp add: apiClient_send_def request_interceptor_def Let_def merge_config_def
      apiClient_headers_def getApiSecretKey_def or_default_def)

section \<open>Properties of the servers page\<close>

subsection \<open>Facility codes\<close>










subsection \<open>Requests issued by the handlers\<close>

lemma sent_show_toast: "sent (show_toast t st) = sent st"
  by (simp add: show_toast_def)

lemma sent_send: "sent (send r st) = sent st @ [r]"
  by (simp add: send_def)

lemma sent_set_price: "sent (set_price plan dc entry st) = sent st"
  by (simp add: set_price_def)

lemma sent_fetchServerPrice:
  "sent (fetchServerPrice plan options dc st)
     = sent st @ (if isAuthenticated st
                  then [\<lparr>req_verb = POST, req_url = ''/servers/'' @ plan @ ''/price'', req_params = [],
                         req_body = PriceBody (convertDisplayDcToApiDc dc) options,
                         req_timeout = None\<rparr>]
                  else [])"
  by (simp add: fetchServerPrice_def Let_def sent_send sent_set_price)

text \<open>What \<open>checkAvailability\<close> sends: its one GET, then at most one price lookup (a POST).\<close>

lemma sent_checkAvailability:
  assumes "isAuthenticated st"
  shows "\<exists>more. sent (checkAvailability plan response st)
           = sent st @
             [\<lparr>req_verb = GET, req_url = ''/availability/'' @ plan,
               req_params =
                 (let selectedOpts = (case selectedOptions st plan of None \<Rightarrow> [] | Some opts \<Rightarrow> opts)
                  in if selectedOpts = [] then [] else [(''options'', join selectedOpts '','')]),
               req_body = NoBody, req_timeout = Some 120000\<rparr>] @ more
           \<and> (\<forall>r\<in>set more. req_verb r = POST)"
proof (cases response)
  case (Inl error)
  then show ?thesis
    using assms
    by (simp add: checkAvailability_def Let_def sent_show_toast sent_send)
next
  case (Inr data)
  show ?thesis
  proof (cases "availableDatacenters_of (normalizedData_of data)")
    case Nil
    then show ?thesis
      using assms Inr
      by (simp add: checkAvailability_def Let_def sent_show_toast sent_send)
  next
    case (Cons firstAvailableDC others)
    then show ?thesis
      using assms Inr
      by (simp add: checkAvailability_def Let_def sent_show_toast sent_send sent_fetchServerPrice)
  qed
qed

text \<open>
  C7. When authenticated, \<open>checkAvailability\<close> issues exactly one GET request; it goes to
  \<open>/availability/{planCode}\<close> and its query has the parameter \<open>options\<close>, equal to the
  selected option codes joined by commas, exactly if at least one option is selected,
  and no parameter otherwise. When not authenticated it issues no request.
\<close>

theorem checkAvailability_request:
  "(isAuthenticated st \<longrightarrow>
      filter (\<lambda>r. req_verb r = GET) (issued st (checkAvailability plan response st))
        = [\<lparr>req_verb = GET, req_url = ''/availability/'' @ plan,
            req_params =
              (let selectedOpts = (case selectedOptions st plan of None \<Rightarrow> [] | Some opts \<Rightarrow> opts)
               in if selectedOpts = [] then [] else [(''options'', join selectedOpts '','')]),
            req_body = NoBody, req_timeout = Some 120000\<rparr>])
   \<and> (\<not> isAuthenticated st \<longrightarrow> issued st (checkAvailability plan response st) = [])"
proof (intro conjI impI)
  assume auth: "isAuthenticated st"
  let ?get = "\<lparr>req_verb = GET, req_url = ''/availability/'' @ plan,
            req_params =
              (let selectedOpts = (case selectedOptions st plan of None \<Rightarrow> [] | Some opts \<Rightarrow> opts)
               in if selectedOpts = [] then [] else [(''options'', join selectedOpts '','')]),
            req_body = NoBody, req_timeout = Some 120000\<rparr>"
  from sent_checkAvailability [OF auth, of plan response]
  obtain more where s: "sent (checkAvailability plan response st) = sent st @ [?get] @ more"
    and posts: "\<forall>r\<in>set more. req_verb r = POST"
    by blast
  have "filter (\<lambda>r. req_verb r = GET) more = []"
    using posts by (simp add: filter_empty_conv)
  then show "filter (\<lambda>r. req_verb r = GET) (issued st (checkAvailability plan response st)) = [?get]"
    by (simp add: issued_def s)
next
  assume "\<not> isAuthenticated st"
  then show "issued st (checkAvailability plan response st) = []"
    by (simp add: issued_def checkAvailability_def sent_show_toast)
qed

theorem checkAvailability_request_witness:
  "isAuthenticated (demo_servers_state True [''ram-4g-ska01'', ''softraid-1x2000sa-ska01''])
   \<and> filter (\<lambda>r. req_verb r = GET)
        (issued (demo_servers_state True [''ram-4g-ska01'', ''softraid-1x2000sa-ska01''])
           (checkAvailability ''24ska01'' (Inr [(''gra'', ''unavailable''), (''ynm'', ''1H-high'')])
              (demo_servers_state True [''ram-4g-ska01'', ''softraid-1x2000sa-ska01''])))
       = [\<lparr>req_verb = GET, req_url = ''/availability/24ska01'',
           req_params = [(''options'', ''ram-4g-ska01,softraid-1x2000sa-ska01'')],
           req_body = NoBody, req_timeout = Some 120000\<rparr>]
   \<and> filter (\<lambda>r. req_verb r = GET)
        (issued (demo_servers_state True [])
           (checkAvailability ''24ska01'' (Inr [(''gra'', ''unavailable''), (''ynm'', ''1H-high'')])
              (demo_servers_state True [])))
       = [\<lparr>req_verb = GET, req_url = ''/availability/24ska01'', req_params = [],
           req_body = NoBody, req_timeout = Some 120000\<rparr>]
   \<and> \<not> isAuthenticated (demo_servers_state False [])
   \<and> issued (demo_servers_state False [])
        (checkAvailability ''24ska01'' (Inr [(''gra'', ''1H-high'')]) (demo_servers_state False [])) = []"
proof -
  let ?sel = "demo_servers_state True [''ram-4g-ska01'', ''softraid-1x2000sa-ska01'']"
  let ?r = "Inr [(''gra'', ''unavailable''), (''ynm'', ''1H-high'')] :: js_error + (string \<times> string) list"
  have a1: "isAuthenticated ?sel" and a2: "isAuthenticated (demo_servers_state True [])"
    and a3: "\<not> isAuthenticated (demo_servers_state False [])"
    by (simp_all add: demo_servers_state_def)
  have 1: "filter (\<lambda>r. req_verb r = GET) (issued ?sel (checkAvailability ''24ska01'' ?r ?sel))
       = [\<lparr>req_verb = GET, req_url = ''/availability/24ska01'',
           req_params = [(''options'', ''ram-4g-ska01,softraid-1x2000sa-ska01'')],
           req_body = NoBody, req_timeout = Some 120000\<rparr>]"
    using a1 checkAvailability_request [of ?sel "''24ska01''" ?r]
    by (simp add: demo_servers_state_def)
  have 2: "filter (\<lambda>r. req_verb r = GET)
        (issued (demo_servers_state True []) (checkAvailability ''24ska01'' ?r (demo_servers_state True [])))
       = [\<lparr>req_verb = GET, req_url = ''/availability/24ska01'', req_params = [],
           req_body = NoBody, req_timeout = Some 120000\<rparr>]"
    using a2 checkAvailability_request [of "demo_servers_state True []" "''24ska01''" ?r]
    by (simp add: demo_servers_state_def)
  have 3: "issued (demo_servers_state False [])
        (checkAvailability ''24ska01'' (Inr [(''gra'', ''1H-high'')]) (demo_servers_state False [])) = []"
    using a3 checkAvailability_request [of "demo_servers_state False []" "''24ska01''" "Inr [(''gra'', ''1H-high'')]"]
    by simp
  show ?thesis
    using a1 1 2 a3 3 by (intro conjI)
qed

text \<open>
  A run of \<open>checkAvailability\<close> in full: the response key \<open>ynm\<close> is stored as \<open>mum\<close>, and the
  price lookup for the first available facility converts it back to \<open>ynm\<close>.
\<close>

lemma checkAvailability_run:
  "sent (checkAvailability ''24ska01'' (Inr [(''gra'', ''unavailable''), (''ynm'', ''1H-high'')])
           (demo_servers_state True []))
     = [\<lparr>req_verb = GET, req_url = ''/availability/24ska01'', req_params = [],
          req_body = NoBody, req_timeout = Some 120000\<rparr>,
        \<lparr>req_verb = POST, req_url = ''/servers/24ska01/price'', req_params = [],
          req_body = PriceBody ''ynm'' [''ram-4g-ska01'', ''softraid-1x1000sa-ska01''],
          req_timeout = None\<rparr>]
   \<and> availability_of (checkAvailability ''24ska01'' (Inr [(''gra'', ''unavailable''), (''ynm'', ''1H-high'')])
           (demo_servers_state True [])) ''24ska01''
     = Some [(''gra'', ''unavailable''), (''mum'', ''1H-high'')]
   \<and> shown (checkAvailability ''24ska01'' (Inr [(''gra'', ''unavailable''), (''ynm'', ''1H-high'')])
           (demo_servers_state True []))
     = [ToastInfo (CheckingAvailability ''24ska01''), ToastSuccess (AvailabilityUpdated ''24ska01'')]"
  by (simp add: checkAvailability_def demo_servers_state_def demo_server_def demo_option_def
      Let_def show_toast_def send_def normalizedData_of_def normalizedDc_def
      availableDatacenters_of_def fetchServerPrice_def set_price_def
      convertDisplayDcToApiDc_def dcMap_def or_default_def toLowerCase_def toLowerCase_char_def)

lemma sent_addToQueue:
  assumes "isAuthenticated st" and "dcs \<noteq> []"
  shows "sent (addToQueue server dcs rejections st)
           = sent st @ map (queue_request server (userSelectedOptions_of st server)) dcs"
  using assms
  by (cases rejections) (simp_all add: addToQueue_def Let_def sent_show_toast)

text \<open>
  C4. With the operator authenticated and \<open>k > 0\<close> facilities selected, \<open>addToQueue\<close>
  issues exactly \<open>k\<close> requests, one \<open>POST /queue\<close> per facility in order, each with the plan
  code, that facility's code converted to the API code, and the selected options (the
  plan's default option values when none is selected), whatever the outcome of the
  requests. Not authenticated, or with no facility, it issues no request and shows one
  error toast.
\<close>

theorem addToQueue_requests:
  "(isAuthenticated st \<and> dcs \<noteq> [] \<longrightarrow>
      issued st (addToQueue server dcs rejections st)
        = map (\<lambda>dc. \<lparr>req_verb = POST, req_url = ''/queue'', req_params = [],
                      req_body = QueueBody (planCode server) (convertDisplayDcToApiDc dc)
                        (case selectedOptions st (planCode server) of
                           None \<Rightarrow> map opt_value (defaultOptions server)
                         | Some opts \<Rightarrow> if opts = [] then map opt_value (defaultOptions server) else opts),
                      req_timeout = None\<rparr>) dcs
      \<and> length (issued st (addToQueue server dcs rejections st)) = length dcs)
   \<and> (\<not> isAuthenticated st \<longrightarrow>
        issued st (addToQueue server dcs rejections st) = []
        \<and> shown (addToQueue server dcs rejections st) = shown st @ [ToastError ConfigureApiFirst])
   \<and> (isAuthenticated st \<and> dcs = [] \<longrightarrow>
        issued st (addToQueue server dcs rejections st) = []
        \<and> shown (addToQueue server dcs rejections st) = shown st @ [ToastError SelectOneDatacenter])"
proof (intro conjI impI)
  assume a: "isAuthenticated st \<and> dcs \<noteq> []"
  have opts: "userSelectedOptions_of st server
               = (case selectedOptions st (planCode server) of
                    None \<Rightarrow> map opt_value (defaultOptions server)
                  | Some opts \<Rightarrow> if opts = [] then map opt_value (defaultOptions server) else opts)"
    by (simp add: userSelectedOptions_of_def split: option.splits)
  have "issued st (addToQueue server dcs rejections st)
          = map (queue_request server (userSelectedOptions_of st server)) dcs"
    using a by (simp add: issued_def sent_addToQueue)
  then show "issued st (addToQueue server dcs rejections st)
        = map (\<lambda>dc. \<lparr>req_verb = POST, req_url = ''/queue'', req_params = [],
                      req_body = QueueBody (planCode server) (convertDisplayDcToApiDc dc)
                        (case selectedOptions st (planCode server) of
                           None \<Rightarrow> map opt_value (defaultOptions server)
                         | Some opts \<Rightarrow> if opts = [] then map opt_value (defaultOptions server) else opts),
                      req_timeout = None\<rparr>) dcs"
    by (simp add: queue_request_def opts)
  then show "length (issued st (addToQueue server dcs rejections st)) = length dcs"
    by simp
next
  assume "\<not> isAuthenticated st"
  then show "issued st (addToQueue server dcs rejections st) = []"
    and "shown (addToQueue server dcs rejections st) = shown st @ [ToastError ConfigureApiFirst]"
    by (simp_all add: issued_def addToQueue_def show_toast_def)
next
  assume "isAuthenticated st \<and> dcs = []"
  then show "issued st (addToQueue server dcs rejections st) = []"
    and "shown (addToQueue server dcs rejections st) = shown st @ [ToastError SelectOneDatacenter]"
    by (simp_all add: issued_def addToQueue_def show_toast_def)
qed

lemma convert_demo:
  "convertDisplayDcToApiDc ''gra'' = ''gra''" "convertDisplayDcToApiDc ''mum'' = ''ynm''"
  by (simp_all add: convertDisplayDcToApiDc_def dcMap_def or_default_def toLowerCase_def
      toLowerCase_char_def)

theorem addToQueue_requests_witness:
  "issued (demo_servers_state True [])
     (addToQueue demo_server [''gra'', ''mum''] [] (demo_servers_state True []))
     = [\<lparr>req_verb = POST, req_url = ''/queue'', req_params = [],
          req_body = QueueBody ''24ska01'' ''gra'' [''ram-4g-ska01'', ''softraid-1x1000sa-ska01''],
          req_timeout = None\<rparr>,
        \<lparr>req_verb = POST, req_url = ''/queue'', req_params = [],
          req_body = QueueBody ''24ska01'' ''ynm'' [''ram-4g-ska01'', ''softraid-1x1000sa-ska01''],
          req_timeout = None\<rparr>]
   \<and> issued (demo_servers_state True [''softraid-1x2000sa-ska01''])
     (addToQueue demo_server [''mum''] [] (demo_servers_state True [''softraid-1x2000sa-ska01'']))
     = [\<lparr>req_verb = POST, req_url = ''/queue'', req_params = [],
          req_body = QueueBody ''24ska01'' ''ynm'' [''softraid-1x2000sa-ska01''],
          req_timeout = None\<rparr>]
   \<and> shown (addToQueue demo_server [''gra''] [] (demo_servers_state False []))
     = [ToastError ConfigureApiFirst]
   \<and> shown (addToQueue demo_server [] [] (demo_servers_state True []))
     = [ToastError SelectOneDatacenter]"
proof -
  have 1: "issued (demo_servers_state True [])
     (addToQueue demo_server [''gra'', ''mum''] [] (demo_servers_state True []))
     = [\<lparr>req_verb = POST, req_url = ''/queue'', req_params = [],
          req_body = QueueBody ''24ska01'' ''gra'' [''ram-4g-ska01'', ''softraid-1x1000sa-ska01''],
          req_timeout = None\<rparr>,
        \<lparr>req_verb = POST, req_url = ''/queue'', req_params = [],
          req_body = QueueBody ''24ska01'' ''ynm'' [''ram-4g-ska01'', ''softraid-1x1000sa-ska01''],
          req_timeout = None\<rparr>]"
    using addToQueue_requests [of "demo_servers_state True []" "[''gra'', ''mum'']" demo_server "[]"]
    by (simp add: demo_servers_state_def demo_server_def demo_option_def convert_demo)
  have 2: "issued (demo_servers_state True [''softraid-1x2000sa-ska01''])
     (addToQueue demo_server [''mum''] [] (demo_servers_state True [''softraid-1x2000sa-ska01'']))
     = [\<lparr>req_verb = POST, req_url = ''/queue'', req_params = [],
          req_body = QueueBody ''24ska01'' ''ynm'' [''softraid-1x2000sa-ska01''],
          req_timeout = None\<rparr>]"
    using addToQueue_requests [of "demo_servers_state True [''softraid-1x2000sa-ska01'']" "[''mum'']"
        demo_server "[]"]
    by (simp add: demo_servers_state_def demo_server_def demo_option_def convert_demo)
  have 3: "shown (addToQueue demo_server [''gra''] [] (demo_servers_state False []))
     = [ToastError ConfigureApiFirst]"
    using addToQueue_requests [of "demo_servers_state False []" "[''gra'']" demo_server "[]"]
    by (simp add: demo_servers_state_def)
  have 4: "shown (addToQueue demo_server [] [] (demo_servers_state True []))
     = [ToastError SelectOneDatacenter]"
    using addToQueue_requests [of "demo_servers_state True []" "[]" demo_server "[]"]
    by (simp add: demo_servers_state_def)
  show ?thesis
    using 1 2 3 4 by (intro conjI)
qed

text \<open>A run of \<open>addToQueue\<close> with a custom option: the success toast and its details.\<close>

lemma addToQueue_run:
  "shown (addToQueue demo_server [''mum''] [] (demo_servers_state True [''softraid-1x2000sa-ska01'']))
     = [ToastSuccess (AddedToQueue ''24ska01'' 1 (Some [(StorageCategory, [''2 TB HDD''])]))]
   \<and> shown (addToQueue demo_server [''gra'', ''mum''] [] (demo_servers_state True []))
     = [ToastSuccess (AddedToQueue ''24ska01'' 2 None)]"
  by (simp add: addToQueue_def demo_servers_state_def demo_server_def demo_option_def Let_def
      show_toast_def userSelectedOptions_of_def categorizeOption_def category_of_def
      toLowerCase_def toLowerCase_char_def zh_memory_def zh_storage_def zh_bandwidth_def)

subsection \<open>The batch summary\<close>

text \<open>
  The handler's part. When the request returns, the handler ends by showing one success
  toast whose message always has the line with the added count, has the line with the
  skipped count exactly if \<open>skipped > 0\<close>, and has the line with the number of errors
  exactly if the errors list is present and not empty. When the request is rejected it
  shows an error instead.
\<close>

lemma handler_batch_message:
  "last (shown (confirmBatchAddAllServersToMonitor (Inr result) subscriptions st))
     = ToastSuccess (BatchSummary (batch_message result))
   \<and> BatchAddedLine (added result) \<in> set (batch_message result)
   \<and> (\<forall>n. BatchAddedLine n \<in> set (batch_message result) \<longrightarrow> n = added result)
   \<and> ((\<exists>n. BatchSkippedLine n \<in> set (batch_message result)) \<longleftrightarrow> 0 < skipped result)
   \<and> (\<forall>n. BatchSkippedLine n \<in> set (batch_message result) \<longrightarrow> n = skipped result)
   \<and> ((\<exists>n. BatchFailedLine n \<in> set (batch_message result))
        \<longleftrightarrow> (\<exists>es. errors result = Some es \<and> es \<noteq> []))
   \<and> (\<forall>n. BatchFailedLine n \<in> set (batch_message result) \<longrightarrow>
         (\<exists>es. errors result = Some es \<and> n = length es))
   \<and> last (shown (confirmBatchAddAllServersToMonitor (Inl error) subscriptions st))
       = ToastError (batch_errorMsg error)"
proof (intro conjI)
  show "last (shown (confirmBatchAddAllServersToMonitor (Inr result) subscriptions st))
     = ToastSuccess (BatchSummary (batch_message result))"
    by (simp add: confirmBatchAddAllServersToMonitor_def Let_def show_toast_def)
  show "last (shown (confirmBatchAddAllServersToMonitor (Inl error) subscriptions st))
       = ToastError (batch_errorMsg error)"
    by (simp add: confirmBatchAddAllServersToMonitor_def Let_def show_toast_def)
  show "BatchAddedLine (added result) \<in> set (batch_message result)"
    by (simp add: batch_message_def)
  show "\<forall>n. BatchAddedLine n \<in> set (batch_message result) \<longrightarrow> n = added result"
    by (simp add: batch_message_def split: option.splits)
  show "(\<exists>n. BatchSkippedLine n \<in> set (batch_message result)) \<longleftrightarrow> 0 < skipped result"
    by (simp add: batch_message_def split: option.splits)
  show "\<forall>n. BatchSkippedLine n \<in> set (batch_message result) \<longrightarrow> n = skipped result"
    by (simp add: batch_message_def split: option.splits)
  show "(\<exists>n. BatchFailedLine n \<in> set (batch_message result))
        \<longleftrightarrow> (\<exists>es. errors result = Some es \<and> es \<noteq> [])"
    by (cases "errors result") (simp_all add: batch_message_def)
  show "\<forall>n. BatchFailedLine n \<in> set (batch_message result) \<longrightarrow>
         (\<exists>es. errors result = Some es \<and> n = length es)"
    by (cases "errors result") (simp_all add: batch_message_def)
qed

text \<open>The operation, step by step and as a whole.\<close>

lemma batch_add_step_facts:
  assumes "batch_add_step ce nA nU now sku (reg, r) = (reg', r')"
  shows "counted r' = counted r + 1"
    and "added r \<le> added r'" and "skipped r \<le> skipped r'"
    and "int (length reg') - added r' = int (length reg) - added r"
    and "take (length reg) reg' = reg"
    and "errors r \<noteq> None \<longrightarrow> errors r' \<noteq> None"
    and "ce sku = None \<longrightarrow> subscribed reg' sku"
  using assms
  by (auto simp: batch_add_step_def Let_def counted_def errors_list_def subscribed_def
           split: if_splits option.splits)

lemma batch_fold_facts:
  assumes "fold (batch_add_step ce nA nU now) skus (reg, r) = (reg', r')"
  shows "counted r' = counted r + int (length skus)
       \<and> added r \<le> added r' \<and> skipped r \<le> skipped r'
       \<and> int (length reg') - added r' = int (length reg) - added r
       \<and> take (length reg) reg' = reg
       \<and> (errors r \<noteq> None \<longrightarrow> errors r' \<noteq> None)"
  using assms
proof (induction skus arbitrary: reg r)
  case Nil
  then show ?case by simp
next
  case (Cons sku skus)
  obtain reg1 r1 where step: "batch_add_step ce nA nU now sku (reg, r) = (reg1, r1)"
    by (cases "batch_add_step ce nA nU now sku (reg, r)")
  with Cons.prems have rest: "fold (batch_add_step ce nA nU now) skus (reg1, r1) = (reg', r')"
    by simp
  note s = batch_add_step_facts [OF step]
  note t = Cons.IH [OF rest]
  have len: "length reg \<le> length reg1"
    using s(5) by (metis length_take min.cobounded1 nat_le_linear take_all)
  have "take (length reg) reg' = take (length reg) (take (length reg1) reg')"
    using len by (simp add: min_def)
  also have "\<dots> = take (length reg) reg1"
    using t by simp
  also have "\<dots> = reg"
    by (rule s(5))
  finally have pre: "take (length reg) reg' = reg" .
  show ?case
    using s t pre by auto
qed

lemma subscribed_mono:
  assumes "take (length reg) reg' = reg" and "subscribed reg sku"
  shows "subscribed reg' sku"
proof -
  have "set reg \<subseteq> set reg'"
    using assms(1) by (metis set_take_subset)
  then show ?thesis
    using assms(2) by (auto simp: subscribed_def list_ex_iff)
qed

lemma batch_fold_subscribes:
  assumes "fold (batch_add_step ce nA nU now) skus (reg, r) = (reg', r')"
    and "sku \<in> set skus" and "ce sku = None"
  shows "subscribed reg' sku"
  using assms
proof (induction skus arbitrary: reg r)
  case Nil
  then show ?case by simp
next
  case (Cons x skus)
  obtain reg1 r1 where step: "batch_add_step ce nA nU now x (reg, r) = (reg1, r1)"
    by (cases "batch_add_step ce nA nU now x (reg, r)")
  with Cons.prems have rest: "fold (batch_add_step ce nA nU now) skus (reg1, r1) = (reg', r')"
    by simp
  show ?case
  proof (cases "sku \<in> set skus")
    case True
    then show ?thesis
      using Cons.IH [OF rest] Cons.prems(3) by simp
  next
    case False
    then have "x = sku" using Cons.prems(2) by simp
    then have "subscribed reg1 sku"
      using batch_add_step_facts(7) [OF step] Cons.prems(3) by simp
    moreover have "take (length reg1) reg' = reg1"
      using batch_fold_facts [OF rest] by simp
    ultimately show ?thesis
      by (rule subscribed_mono [rotated])
  qed
qed

lemma batch_add_all_summary:
  assumes "batch_add_all ce nA nU now registry skus = (registry', summary)"
  shows "(\<exists>es. errors summary = Some es
            \<and> added summary + skipped summary + int (length es) = int (length skus))
       \<and> 0 \<le> added summary \<and> 0 \<le> skipped summary
       \<and> int (length registry') = int (length registry) + added summary
       \<and> take (length registry) registry' = registry
       \<and> (\<forall>sku\<in>set skus. ce sku = None \<longrightarrow> subscribed registry' sku)"
proof -
  let ?r0 = "\<lparr>added = 0, skipped = 0, errors = Some []\<rparr>"
  have f: "fold (batch_add_step ce nA nU now) skus (registry, ?r0) = (registry', summary)"
    using assms by (simp add: batch_add_all_def)
  note facts = batch_fold_facts [OF f]
  from facts obtain es where es: "errors summary = Some es"
    by auto
  have "counted summary = int (length skus)"
    using facts by (simp add: counted_def errors_list_def)
  then have c: "added summary + skipped summary + int (length es) = int (length skus)"
    by (simp add: counted_def errors_list_def es)
  have sub: "\<forall>sku\<in>set skus. ce sku = None \<longrightarrow> subscribed registry' sku"
    using batch_fold_subscribes [OF f] by blast
  show ?thesis
    using es c facts sub by simp
qed

text \<open>
  C6. The batch-add-all operation always returns a summary with the three fields \<open>added\<close>,
  \<open>skipped\<close> and \<open>errors\<close>, which together account for every known SKU, and it does not
  fail as a whole: the subscriptions that were there stay, the registry grows by exactly
  \<open>added\<close>, and every SKU whose creation does not fail is subscribed afterwards, whatever
  happens to the others. The handler's success message always reports the added count,
  reports the skipped count exactly if \<open>skipped > 0\<close>, and reports the error count exactly
  if the errors list is present and not empty.
\<close>

theorem batch_summary_message:
  "(\<exists>es. errors (snd (batch_add_all create_error notifyAvailable notifyUnavailable now registry skus)) = Some es
         \<and> added (snd (batch_add_all create_error notifyAvailable notifyUnavailable now registry skus))
           + skipped (snd (batch_add_all create_error notifyAvailable notifyUnavailable now registry skus))
           + int (length es) = int (length skus))
   \<and> 0 \<le> added (snd (batch_add_all create_error notifyAvailable notifyUnavailable now registry skus))
   \<and> 0 \<le> skipped (snd (batch_add_all create_error notifyAvailable notifyUnavailable now registry skus))
   \<and> int (length (fst (batch_add_all create_error notifyAvailable notifyUnavailable now registry skus)))
       = int (length registry)
         + added (snd (batch_add_all create_error notifyAvailable notifyUnavailable now registry skus))
   \<and> take (length registry)
        (fst (batch_add_all create_error notifyAvailable notifyUnavailable now registry skus)) = registry
   \<and> (\<forall>sku\<in>set skus. create_error sku = None \<longrightarrow>
         subscribed (fst (batch_add_all create_error notifyAvailable notifyUnavailable now registry skus)) sku)
   \<and> last (shown (confirmBatchAddAllServersToMonitor (Inr result) subscriptions st))
       = ToastSuccess (BatchSummary (batch_message result))
   \<and> BatchAddedLine (added result) \<in> set (batch_message result)
   \<and> (\<forall>n. BatchAddedLine n \<in> set (batch_message result) \<longrightarrow> n = added result)
   \<and> ((\<exists>n. BatchSkippedLine n \<in> set (batch_message result)) \<longleftrightarrow> 0 < skipped result)
   \<and> (\<forall>n. BatchSkippedLine n \<in> set (batch_message result) \<longrightarrow> n = skipped result)
   \<and> ((\<exists>n. BatchFailedLine n \<in> set (batch_message result))
        \<longleftrightarrow> (\<exists>es. errors result = Some es \<and> es \<noteq> []))
   \<and> (\<forall>n. BatchFailedLine n \<in> set (batch_message result) \<longrightarrow>
         (\<exists>es. errors result = Some es \<and> n = length es))
   \<and> last (shown (confirmBatchAddAllServersToMonitor (Inl error) subscriptions st))
       = ToastError (batch_errorMsg error)"
proof -
  obtain registry' summary
    where run: "batch_add_all create_error notifyAvailable notifyUnavailable now registry skus
                  = (registry', summary)"
    by (cases "batch_add_all create_error notifyAvailable notifyUnavailable now registry skus")
  have operation:
    "(\<exists>es. errors summary = Some es
            \<and> added summary + skipped summary + int (length es) = int (length skus))
       \<and> 0 \<le> added summary \<and> 0 \<le> skipped summary
       \<and> int (length registry') = int (length registry) + added summary
       \<and> take (length registry) registry' = registry
       \<and> (\<forall>sku\<in>set skus. create_error sku = None \<longrightarrow> subscribed registry' sku)"
    by (rule batch_add_all_summary [OF run])
  show ?thesis
    unfolding run fst_conv snd_conv
    using operation handler_batch_message [of result subscriptions st error]
    by (intro conjI) blast+
qed

theorem batch_summary_message_witness:
  "batch_add_all demo_create_error True True 1730000000000 demo_registry
       [''24ska01'', ''24sk50'', ''24sk60'']
     = (demo_registry @
          [\<lparr>sub_id = 2, skuCode = ''24sk50'', facilityCodes = [], notifyOnAvailable = True,
            notifyOnUnavailable = True, createdAt = 1730000000000\<rparr>],
        \<lparr>added = 1, skipped = 1, errors = Some [''24sk60: quota exceeded'']\<rparr>)
   \<and> shown (confirmBatchAddAllServersToMonitor
              (Inr (snd (batch_add_all demo_create_error True True 1730000000000 demo_registry
                           [''24ska01'', ''24sk50'', ''24sk60''])))
              (Inr [''24ska01'', ''24sk50'']) (demo_servers_state True []))
       = [ToastSuccess (BatchSummary [BatchDoneLine, BatchAddedLine 1, BatchSkippedLine 1,
                                      BatchFailedLine 1, BatchFooterLine])]
   \<and> batch_message \<lparr>added = 5, skipped = 0, errors = Some []\<rparr>
       = [BatchDoneLine, BatchAddedLine 5, BatchFooterLine]
   \<and> batch_message \<lparr>added = 0, skipped = 7, errors = None\<rparr>
       = [BatchDoneLine, BatchAddedLine 0, BatchSkippedLine 7, BatchFooterLine]"
proof -
  let ?skus = "[''24ska01'', ''24sk50'', ''24sk60'']"
  let ?r = "\<lparr>added = 1, skipped = 1, errors = Some [''24sk60: quota exceeded'']\<rparr>"
  let ?s = "Inr [''24ska01'', ''24sk50''] :: js_error + string list"
  have run: "batch_add_all demo_create_error True True 1730000000000 demo_registry ?skus
     = (demo_registry @
          [\<lparr>sub_id = 2, skuCode = ''24sk50'', facilityCodes = [], notifyOnAvailable = True,
            notifyOnUnavailable = True, createdAt = 1730000000000\<rparr>], ?r)"
    by (simp add: batch_add_all_def batch_add_step_def Let_def subscribed_def errors_list_def
        fresh_id_def demo_registry_def demo_create_error_def)
  have m: "batch_message ?r = [BatchDoneLine, BatchAddedLine 1, BatchSkippedLine 1,
                                    BatchFailedLine 1, BatchFooterLine]"
    by (simp add: batch_message_def)
  have l: "shown (loadSubscribedServers ?s
             (send \<lparr>req_verb = POST, req_url = ''/monitor/subscriptions/batch-add-all'',
                     req_params = [], req_body = BatchAddAllBody True True,
                     req_timeout = None\<rparr>
                ((demo_servers_state True [])\<lparr>showBatchMonitorDialog := False\<rparr>))) = []"
    by (simp add: loadSubscribedServers_def Let_def send_def demo_servers_state_def)
  have 1: "shown (confirmBatchAddAllServersToMonitor
              (Inr (snd (batch_add_all demo_create_error True True 1730000000000 demo_registry ?skus)))
              ?s (demo_servers_state True []))
     = [ToastSuccess (BatchSummary [BatchDoneLine, BatchAddedLine 1, BatchSkippedLine 1,
                                    BatchFailedLine 1, BatchFooterLine])]"
    using batch_summary_message [of demo_create_error True True 1730000000000 demo_registry ?skus
        ?r ?s "demo_servers_state True []"]
    by (simp add: run confirmBatchAddAllServersToMonitor_def Let_def show_toast_def l m)
  have 2: "batch_message \<lparr>added = 5, skipped = 0, errors = Some []\<rparr>
       = [BatchDoneLine, BatchAddedLine 5, BatchFooterLine]"
    by (simp add: batch_message_def)
  have 3: "batch_message \<lparr>added = 0, skipped = 7, errors = None\<rparr>
       = [BatchDoneLine, BatchAddedLine 0, BatchSkippedLine 7, BatchFooterLine]"
    by (simp add: batch_message_def)
  show ?thesis
    using run 1 2 3 by (intro conjI)
qed

section \<open>The classification of a status, on both pages\<close>

lemma in_availableDatacenters:
  "dc \<in> set (availableDatacenters_of normalizedData)
     \<longleftrightarrow> (\<exists>s. (dc, s) \<in> set normalizedData \<and> s \<noteq> [] \<and> s \<noteq> ''unavailable'' \<and> s \<noteq> ''unknown'')"
  by (force simp: availableDatacenters_of_def)

lemma in_stock_iff:
  "list_ex dc_in_stock dcs
     \<longleftrightarrow> (\<exists>dc\<in>set dcs. availability dc \<noteq> ''unavailable'' \<and> availability dc \<noteq> ''unknown'')"
  by (simp add: list_ex_iff dc_in_stock_def)

lemma out_of_stock_iff:
  "list_all dc_out_of_stock dcs
     \<longleftrightarrow> (\<forall>dc\<in>set dcs. availability dc = ''unavailable'' \<or> availability dc = ''unknown'')"
  by (simp add: list_all_iff dc_out_of_stock_def)

text \<open>
  C1, as amended. On the availability page a status counts as available exactly if it is
  neither \<open>unavailable\<close> nor \<open>unknown\<close>: the "available" filter keeps the items with such a
  datacenter, the "unavailable" filter keeps the items with none, and \<open>stats.available\<close>
  counts the items with one. In the per-plan check a facility is among the available
  ones exactly if its status is not empty and is neither \<open>unavailable\<close> nor \<open>unknown\<close>.
  The statuses \<open>1H-low\<close>, \<open>1H-high\<close>, \<open>72H\<close> and \<open>480H\<close> count as available in both places.
\<close>

theorem availability_classification:
  "(item \<in> set (availabilityFilter ''available'' items) \<longleftrightarrow>
      item \<in> set items \<and>
      (\<exists>dc\<in>set (datacenters item). availability dc \<noteq> ''unavailable'' \<and> availability dc \<noteq> ''unknown''))
   \<and> (item \<in> set (availabilityFilter ''unavailable'' items) \<longleftrightarrow>
      item \<in> set items \<and>
      (\<forall>dc\<in>set (datacenters item). availability dc = ''unavailable'' \<or> availability dc = ''unknown''))
   \<and> available (stats items)
       = length (filter (\<lambda>item. \<exists>dc\<in>set (datacenters item).
                           availability dc \<noteq> ''unavailable'' \<and> availability dc \<noteq> ''unknown'') items)
   \<and> (dc \<in> set (availableDatacenters_of normalizedData) \<longleftrightarrow>
        (\<exists>s. (dc, s) \<in> set normalizedData \<and> s \<noteq> [] \<and> s \<noteq> ''unavailable'' \<and> s \<noteq> ''unknown''))
   \<and> (\<forall>s\<in>{''1H-low'', ''1H-high'', ''72H'', ''480H''}.
         dc_in_stock \<lparr>datacenter = dc, availability = s\<rparr> \<and> availableDatacenters_of [(dc, s)] = [dc])"
proof (intro conjI)
  show "item \<in> set (availabilityFilter ''available'' items) \<longleftrightarrow>
      item \<in> set items \<and>
      (\<exists>dc\<in>set (datacenters item). availability dc \<noteq> ''unavailable'' \<and> availability dc \<noteq> ''unknown'')"
    by (simp add: availabilityFilter_def in_stock_iff)
  show "item \<in> set (availabilityFilter ''unavailable'' items) \<longleftrightarrow>
      item \<in> set items \<and>
      (\<forall>dc\<in>set (datacenters item). availability dc = ''unavailable'' \<or> availability dc = ''unknown'')"
    by (simp add: availabilityFilter_def out_of_stock_iff)
  show "available (stats items)
       = length (filter (\<lambda>item. \<exists>dc\<in>set (datacenters item).
                           availability dc \<noteq> ''unavailable'' \<and> availability dc \<noteq> ''unknown'') items)"
    by (simp add: stats_def in_stock_iff)
  show "dc \<in> set (availableDatacenters_of normalizedData) \<longleftrightarrow>
        (\<exists>s. (dc, s) \<in> set normalizedData \<and> s \<noteq> [] \<and> s \<noteq> ''unavailable'' \<and> s \<noteq> ''unknown'')"
    by (rule in_availableDatacenters)
  show "\<forall>s\<in>{''1H-low'', ''1H-high'', ''72H'', ''480H''}.
         dc_in_stock \<lparr>datacenter = dc, availability = s\<rparr> \<and> availableDatacenters_of [(dc, s)] = [dc]"
    by (simp add: dc_in_stock_def availableDatacenters_of_def)
qed

theorem availability_classification_witness:
  "demo_item ''24sk50'' [''unavailable'', ''weird-status'']
     \<in> set (availabilityFilter ''available''
              [demo_item ''24ska01'' [''unavailable''], demo_item ''24sk50'' [''unavailable'', ''weird-status'']])
   \<and> demo_item ''24ska01'' [''unavailable'']
     \<notin> set (availabilityFilter ''available''
              [demo_item ''24ska01'' [''unavailable''], demo_item ''24sk50'' [''unavailable'', ''weird-status'']])
   \<and> available (stats [demo_item ''24ska01'' [''unavailable''],
                        demo_item ''24sk50'' [''unavailable'', ''weird-status'']]) = 1
   \<and> availableDatacenters_of [(''gra'', ''unavailable''), (''bhs'', ''72H''), (''sbg'', ''unknown'')] = [''bhs'']
   \<and> dc_in_stock \<lparr>datacenter = ''gra'', availability = ''480H''\<rparr>"
proof -
  let ?a = "demo_item ''24ska01'' [''unavailable'']"
  let ?b = "demo_item ''24sk50'' [''unavailable'', ''weird-status'']"
  note c = availability_classification [of ?b "[?a, ?b]" "''gra''" "[]"]
  have 1: "?b \<in> set (availabilityFilter ''available'' [?a, ?b])"
    using c by (simp add: demo_item_def)
  have 2: "?a \<notin> set (availabilityFilter ''available'' [?a, ?b])"
    using availability_classification [of ?a "[?a, ?b]" "''gra''" "[]"]
    by (simp add: demo_item_def)
  have 3: "available (stats [?a, ?b]) = 1"
    using c by (simp add: demo_item_def)
  have 4: "availableDatacenters_of [(''gra'', ''unavailable''), (''bhs'', ''72H''), (''sbg'', ''unknown'')] = [''bhs'']"
    by (simp add: availableDatacenters_of_def)
  have 5: "dc_in_stock \<lparr>datacenter = ''gra'', availability = ''480H''\<rparr>"
    using c by simp
  show ?thesis
    using 1 2 3 4 5 by (intro conjI)
qed

text \<open>
  The claim as stated fails in the per-plan check: an empty status is neither
  \<open>unavailable\<close> nor \<open>unknown\<close>, the page counts it as available, and the per-plan check
  does not.
\<close>

theorem availability_classification_counterexample:
  "([] :: string) \<noteq> ''unavailable'' \<and> ([] :: string) \<noteq> ''unknown''
   \<and> dc_in_stock \<lparr>datacenter = ''gra'', availability = []\<rparr>
   \<and> ''gra'' \<notin> set (availableDatacenters_of (normalizedData_of [(''gra'', [])]))"
  by (simp add: dc_in_stock_def availableDatacenters_of_def normalizedData_of_def normalizedDc_def)

end
